theory Spec2Isabelle
  imports Complex_Main "HOL-Library.Log_Nat"
begin

section \<open>Strings\<close>

text \<open>
  Go strings are byte sequences; a \<^typ>\<open>string\<close> here is the list of those bytes.
  Non-ASCII text of the source (Chinese titles and patterns) is written as its UTF-8 bytes.
\<close>

text \<open>\<^verbatim>\<open>strings.HasPrefix(s, prefix)\<close>.\<close>

definition HasPrefix :: "string \<Rightarrow> string \<Rightarrow> bool" where
  "HasPrefix s pre = (take (length pre) s = pre)"

text \<open>
  \<^verbatim>\<open>containsString\<close> of \<^verbatim>\<open>pkg/rules/engine.go\<close>: the loop over the start
  positions \<open>0 .. len(s) - len(substr)\<close>, each compared with \<open>s[i:i+len(substr)]\<close>.
\<close>

fun containsLoop :: "string \<Rightarrow> string \<Rightarrow> nat \<Rightarrow> nat \<Rightarrow> bool" where
  "containsLoop s substr i 0 = False"
| "containsLoop s substr i (Suc k) =
     (if take (length substr) (drop i s) = substr then True
      else containsLoop s substr (Suc i) k)"

definition containsString :: "string \<Rightarrow> string \<Rightarrow> bool" where
  "containsString s substr =
     (if length substr = 0 then True
      else if length s < length substr then False
      else containsLoop s substr 0 (Suc (length s - length substr)))"

text \<open>\<^verbatim>\<open>toLowerString\<close> of \<^verbatim>\<open>pkg/rules/engine.go\<close>: bytes \<open>A..Z\<close> get 32 added.\<close>

definition lowerByte :: "char \<Rightarrow> char" where
  "lowerByte c =
     (if (65::nat) \<le> of_char c \<and> of_char c \<le> (90::nat)
      then char_of (of_char c + (32::nat)) else c)"

definition toLowerString :: "string \<Rightarrow> string" where
  "toLowerString s = map lowerByte s"

section \<open>Grouper: profile type detection (\<^verbatim>\<open>pkg/analyzer/grouping.go\<close>)\<close>

record ValueType =
  vtType :: string
  vtUnit :: string

record Profile =
  SampleType :: "ValueType list"
  DurationNanos :: int

text \<open>
  The loop of \<^verbatim>\<open>detectProfileType\<close> over \<^verbatim>\<open>p.SampleType\<close>: the first entry that
  matches a branch decides; \<open>None\<close> when the loop falls through. The library function
  \<^verbatim>\<open>strings.ToLower\<close> is the parameter \<open>lower\<close>.
\<close>

fun sampleTypeLoop :: "(string \<Rightarrow> string) \<Rightarrow> ValueType list \<Rightarrow> string option" where
  "sampleTypeLoop lower [] = None"
| "sampleTypeLoop lower (st # rest) =
     (let typeLower = lower (vtType st); unitLower = lower (vtUnit st) in
      if (typeLower = ''cpu'' \<or> typeLower = ''samples'') \<and>
         (unitLower = ''nanoseconds'' \<or> unitLower = ''count'') then Some ''cpu''
      else if typeLower = ''alloc_objects'' \<or> typeLower = ''alloc_space'' \<or>
              typeLower = ''inuse_objects'' \<or> typeLower = ''inuse_space'' then Some ''heap''
      else if typeLower = ''goroutine'' \<or> unitLower = ''goroutine'' then Some ''goroutine''
      else if typeLower = ''contentions'' \<or> typeLower = ''delay'' then Some ''block''
      else if typeLower = ''contentions'' \<and> unitLower = ''count'' then Some ''mutex''
      else sampleTypeLoop lower rest)"

definition detectProfileType :: "(string \<Rightarrow> string) \<Rightarrow> Profile option \<Rightarrow> string" where
  "detectProfileType lower p =
     (case p of
        None \<Rightarrow> ''unknown''
      | Some prof \<Rightarrow>
          (case sampleTypeLoop lower (SampleType prof) of
             Some t \<Rightarrow> t
           | None \<Rightarrow> if DurationNanos prof > 0 then ''cpu'' else ''unknown''))"

text \<open>
  The group key that \<^verbatim>\<open>GroupProfiles\<close> files a loaded profile under: the detected
  type, with the empty string replaced by \<open>unknown\<close>.
\<close>

definition groupKey :: "(string \<Rightarrow> string) \<Rightarrow> Profile \<Rightarrow> string" where
  "groupKey lower p =
     (let profileType = detectProfileType lower (Some p) in
      if profileType = [] then ''unknown'' else profileType)"

section \<open>Locator: call-chain aggregation keys\<close>

datatype CodeCategory =
  CategoryRuntime | CategoryStdlib | CategoryThirdParty | CategoryBusiness | CategoryUnknown

text \<open>
  \<^verbatim>\<open>StackFrame\<close>. The two percentages are \<^verbatim>\<open>float64\<close> in the source; no
  function modelled here computes with them, so they are kept as reals.
\<close>

record StackFrame =
  FunctionName :: string
  ShortName :: string
  PackageName :: string
  FilePath :: string
  LineNumber :: int
  Category :: CodeCategory
  Flat :: int
  FlatPct :: real
  Cum :: int
  CumPct :: real

text \<open>
  The key-building loop shared by the key functions:
  \<^verbatim>\<open>for i, fn := range names { if i > 0 { key += "|" }; key += fn }\<close>.
\<close>

fun keyLoop :: "string \<Rightarrow> nat \<Rightarrow> string list \<Rightarrow> string" where
  "keyLoop key i [] = key"
| "keyLoop key i (fn # rest) =
     keyLoop ((if i > 0 then key @ ''|'' else key) @ fn) (Suc i) rest"

text \<open>\<^verbatim>\<open>generateCallChainKey\<close>: every frame's function name, no prefix.\<close>

definition generateCallChainKey :: "StackFrame list \<Rightarrow> string" where
  "generateCallChainKey frames =
     (if length frames = 0 then [] else keyLoop [] 0 (map FunctionName frames))"

text \<open>
  \<^verbatim>\<open>generateSmartCallChainKey\<close>: the first loop collects the names of the business
  frames; the second branch indexes \<^verbatim>\<open>frames[i]\<close> for \<open>i < maxFrames\<close>.
\<close>

definition generateSmartCallChainKey :: "StackFrame list \<Rightarrow> string" where
  "generateSmartCallChainKey frames =
     (if length frames = 0 then []
      else
        let businessFrames =
              map FunctionName (filter (\<lambda>frame. Category frame = CategoryBusiness) frames)
        in if length businessFrames > 0 then keyLoop ''business:'' 0 businessFrames
           else
             let maxFrames = (if length frames < 5 then length frames else 5)
             in keyLoop ''system:'' 0 (map (\<lambda>i. FunctionName (frames ! i)) [0..<maxFrames]))"

text \<open>The key as the specification words it: a prefix, then the names joined by \<open>|\<close>.\<close>

fun joinBar :: "string list \<Rightarrow> string" where
  "joinBar [] = []"
| "joinBar [x] = x"
| "joinBar (x # y # rest) = x @ ''|'' @ joinBar (y # rest)"

definition businessNames :: "StackFrame list \<Rightarrow> string list" where
  "businessNames frames =
     map FunctionName (filter (\<lambda>frame. Category frame = CategoryBusiness) frames)"

definition specKey :: "StackFrame list \<Rightarrow> string" where
  "specKey frames =
     (if businessNames frames \<noteq> [] then ''business:'' @ joinBar (businessNames frames)
      else ''system:'' @ joinBar (map FunctionName (take (min 5 (length frames)) frames)))"

section \<open>Go string library functions used by the locator\<close>

text \<open>
  \<^verbatim>\<open>strings.Index\<close>, \<^verbatim>\<open>strings.LastIndex\<close> and \<^verbatim>\<open>strings.Contains\<close> of the Go
  standard library: the byte index of the first (last) occurrence of \<open>sub\<close>, or \<open>-1\<close>.
\<close>

fun indexLoop :: "string \<Rightarrow> string \<Rightarrow> nat \<Rightarrow> nat \<Rightarrow> int" where
  "indexLoop s sub i 0 = -1"
| "indexLoop s sub i (Suc k) =
     (if take (length sub) (drop i s) = sub then int i else indexLoop s sub (Suc i) k)"

definition stringsIndex :: "string \<Rightarrow> string \<Rightarrow> int" where
  "stringsIndex s sub =
     (if length s < length sub then -1 else indexLoop s sub 0 (Suc (length s - length sub)))"

fun lastIndexLoop :: "string \<Rightarrow> string \<Rightarrow> nat \<Rightarrow> int" where
  "lastIndexLoop s sub 0 = -1"
| "lastIndexLoop s sub (Suc i) =
     (if take (length sub) (drop i s) = sub then int i else lastIndexLoop s sub i)"

definition stringsLastIndex :: "string \<Rightarrow> string \<Rightarrow> int" where
  "stringsLastIndex s sub =
     (if length s < length sub then -1 else lastIndexLoop s sub (Suc (length s - length sub)))"

definition stringsContains :: "string \<Rightarrow> string \<Rightarrow> bool" where
  "stringsContains s sub = (0 \<le> stringsIndex s sub)"

section \<open>Classifier\<close>

record LocatorConfig =
  ModuleName :: string
  ThirdPartyPrefixes :: "string list"
  MaxCallStackDepth :: int
  MaxHotPaths :: int

text \<open>The package list \<^verbatim>\<open>goStdlibPackages\<close>, in the order of the source.\<close>

definition goStdlibPackages :: "string list" where
  "goStdlibPackages = [
    ''archive'', ''archive/tar'', ''archive/zip'', ''bufio'', ''builtin'', ''bytes'',
    ''compress'', ''compress/bzip2'', ''compress/flate'', ''compress/gzip'',
    ''compress/lzw'', ''compress/zlib'', ''container'', ''container/heap'',
    ''container/list'', ''container/ring'', ''context'', ''crypto'', ''crypto/aes'',
    ''crypto/cipher'', ''crypto/des'', ''crypto/dsa'', ''crypto/ecdh'', ''crypto/ecdsa'',
    ''crypto/ed25519'', ''crypto/elliptic'', ''crypto/hmac'', ''crypto/md5'',
    ''crypto/rand'', ''crypto/rc4'', ''crypto/rsa'', ''crypto/sha1'', ''crypto/sha256'',
    ''crypto/sha512'', ''crypto/subtle'', ''crypto/tls'', ''crypto/x509'',
    ''crypto/x509/pkix'', ''database'', ''database/sql'', ''database/sql/driver'',
    ''debug'', ''debug/buildinfo'', ''debug/dwarf'', ''debug/elf'', ''debug/gosym'',
    ''debug/macho'', ''debug/pe'', ''debug/plan9obj'', ''embed'', ''encoding'',
    ''encoding/ascii85'', ''encoding/asn1'', ''encoding/base32'', ''encoding/base64'',
    ''encoding/binary'', ''encoding/csv'', ''encoding/gob'', ''encoding/hex'',
    ''encoding/json'', ''encoding/pem'', ''encoding/xml'', ''errors'', ''expvar'',
    ''flag'', ''fmt'', ''go'', ''go/ast'', ''go/build'', ''go/build/constraint'',
    ''go/constant'', ''go/doc'', ''go/doc/comment'', ''go/format'', ''go/importer'',
    ''go/parser'', ''go/printer'', ''go/scanner'', ''go/token'', ''go/types'', ''hash'',
    ''hash/adler32'', ''hash/crc32'', ''hash/crc64'', ''hash/fnv'', ''hash/maphash'',
    ''html'', ''html/template'', ''image'', ''image/color'', ''image/color/palette'',
    ''image/draw'', ''image/gif'', ''image/jpeg'', ''image/png'', ''index'',
    ''index/suffixarray'', ''io'', ''io/fs'', ''io/ioutil'', ''log'', ''log/slog'',
    ''log/syslog'', ''maps'', ''math'', ''math/big'', ''math/bits'', ''math/cmplx'',
    ''math/rand'', ''mime'', ''mime/multipart'', ''mime/quotedprintable'', ''net'',
    ''net/http'', ''net/http/cgi'', ''net/http/cookiejar'', ''net/http/fcgi'',
    ''net/http/httptest'', ''net/http/httptrace'', ''net/http/httputil'',
    ''net/http/pprof'', ''net/mail'', ''net/netip'', ''net/rpc'', ''net/rpc/jsonrpc'',
    ''net/smtp'', ''net/textproto'', ''net/url'', ''os'', ''os/exec'', ''os/signal'',
    ''os/user'', ''path'', ''path/filepath'', ''plugin'', ''reflect'', ''regexp'',
    ''regexp/syntax'', ''slices'', ''sort'', ''strconv'', ''strings'', ''sync'',
    ''sync/atomic'', ''syscall'', ''testing'', ''testing/fstest'', ''testing/iotest'',
    ''testing/quick'', ''text'', ''text/scanner'', ''text/tabwriter'', ''text/template'',
    ''text/template/parse'', ''time'', ''time/tzdata'', ''unicode'', ''unicode/utf16'',
    ''unicode/utf8'', ''unsafe'', ''internal'']"

text \<open>
  \<^verbatim>\<open>Classifier\<close>: the map \<^verbatim>\<open>stdlibPackages map[string]bool\<close> is read only by lookup,
  where a missing key gives \<open>false\<close>; it is the characteristic function of its true keys.
\<close>

record Classifier =
  moduleName :: string
  thirdPartyPrefixes :: "string list"
  stdlibPackages :: "string \<Rightarrow> bool"

definition NewClassifier :: "LocatorConfig \<Rightarrow> Classifier" where
  "NewClassifier config =
     \<lparr>moduleName = ModuleName config,
      thirdPartyPrefixes = ThirdPartyPrefixes config,
      stdlibPackages = (\<lambda>pkg. List.member goStdlibPackages pkg)\<rparr>"

definition isRuntimePackage :: "Classifier \<Rightarrow> string \<Rightarrow> bool" where
  "isRuntimePackage c packageName =
     (packageName = ''runtime'' \<or> HasPrefix packageName ''runtime/'')"

definition isStdlibPackage :: "Classifier \<Rightarrow> string \<Rightarrow> bool" where
  "isStdlibPackage c packageName =
     (if stdlibPackages c packageName then True
      else
        let idx = stringsIndex packageName ''/'';
            topLevel = (if idx > 0 then take (nat idx) packageName else packageName)
        in if stdlibPackages c topLevel \<and> \<not> stringsContains topLevel ''.'' then True
           else if HasPrefix packageName ''golang.org/x/'' then True
           else False)"

definition isBusinessPackage :: "Classifier \<Rightarrow> string \<Rightarrow> bool" where
  "isBusinessPackage c packageName =
     (if packageName = ''main'' \<or> HasPrefix packageName ''main.'' then True
      else if \<not> stringsContains packageName ''/'' \<and>
              \<not> isRuntimePackage c packageName \<and>
              \<not> isStdlibPackage c packageName then True
      else if moduleName c \<noteq> []
        then packageName = moduleName c \<or> HasPrefix packageName (moduleName c @ ''/'')
      else False)"

definition thirdPartyDomains :: "string list" where
  "thirdPartyDomains =
     [''github.com/'', ''gitlab.com/'', ''bitbucket.org/'', ''gopkg.in/'', ''go.uber.org/'',
      ''google.golang.org/'', ''cloud.google.com/'', ''k8s.io/'', ''sigs.k8s.io/'']"

text \<open>The two loops of \<^verbatim>\<open>isThirdPartyPackage\<close>; each returns at its first match.\<close>

fun prefixLoop :: "string \<Rightarrow> string list \<Rightarrow> bool" where
  "prefixLoop packageName [] = False"
| "prefixLoop packageName (pre # rest) =
     (if HasPrefix packageName pre then True else prefixLoop packageName rest)"

fun domainLoop :: "Classifier \<Rightarrow> string \<Rightarrow> string list \<Rightarrow> bool" where
  "domainLoop c packageName [] = False"
| "domainLoop c packageName (domain # rest) =
     (if HasPrefix packageName domain
      then (if moduleName c \<noteq> [] \<and> HasPrefix packageName (moduleName c) then False else True)
      else domainLoop c packageName rest)"

definition isThirdPartyPackage :: "Classifier \<Rightarrow> string \<Rightarrow> bool" where
  "isThirdPartyPackage c packageName =
     (if prefixLoop packageName (thirdPartyPrefixes c) then True
      else domainLoop c packageName thirdPartyDomains)"

definition Classify :: "Classifier \<Rightarrow> string \<Rightarrow> CodeCategory" where
  "Classify c packageName =
     (if packageName = [] then CategoryUnknown
      else if isRuntimePackage c packageName then CategoryRuntime
      else if isStdlibPackage c packageName then CategoryStdlib
      else if isBusinessPackage c packageName then CategoryBusiness
      else if isThirdPartyPackage c packageName then CategoryThirdParty
      else CategoryUnknown)"

section \<open>Extractor\<close>

text \<open>
  The decoded profile's \<^verbatim>\<open>Function\<close>, \<^verbatim>\<open>Line\<close> and \<^verbatim>\<open>Location\<close>, with the fields
  the extractor reads. A nil pointer is \<open>None\<close>.
\<close>

record Function =
  fnName :: string
  fnFilename :: string

record Line =
  lnFunction :: "Function option"
  lnLine :: int

record Location =
  locLine :: "Line list"

text \<open>\<^verbatim>\<open>Extractor\<close>: its one field, the classifier pointer.\<close>

record Extractor =
  classifier :: "Classifier option"

definition ExtractPackageName :: "string \<Rightarrow> string" where
  "ExtractPackageName functionName =
     (if functionName = [] then []
      else
        let lastSlash = stringsLastIndex functionName ''/'';
            searchStart = (if lastSlash \<ge> 0 then lastSlash + 1 else 0);
            dotIndex = stringsIndex (drop (nat searchStart) functionName) ''.''
        in if dotIndex < 0 then functionName
           else take (nat (searchStart + dotIndex)) functionName)"

definition ExtractShortName :: "string \<Rightarrow> string" where
  "ExtractShortName functionName =
     (if functionName = [] then []
      else
        let lastSlash = stringsLastIndex functionName ''/'';
            searchStart = (if lastSlash \<ge> 0 then lastSlash + 1 else 0);
            dotIndex = stringsIndex (drop (nat searchStart) functionName) ''.''
        in if dotIndex < 0 then functionName
           else drop (nat (searchStart + dotIndex + 1)) functionName)"

text \<open>The frame that \<^verbatim>\<open>ExtractStackFrame\<close> starts from and returns when no function is found.\<close>

definition initialFrame :: StackFrame where
  "initialFrame =
     \<lparr>FunctionName = ''unknown'', ShortName = ''unknown'', PackageName = [],
      FilePath = ''unknown'', LineNumber = 0, Category = CategoryUnknown,
      Flat = 0, FlatPct = 0, Cum = 0, CumPct = 0\<rparr>"

definition ExtractStackFrame :: "Extractor \<Rightarrow> Location option \<Rightarrow> Line option \<Rightarrow> StackFrame" where
  "ExtractStackFrame e loc line =
     (let frame = initialFrame;
          line1 = (case (line, loc) of
                     (None, Some l) \<Rightarrow> if length (locLine l) > 0 then Some (locLine l ! 0) else None
                   | _ \<Rightarrow> line)
      in case line1 of
           None \<Rightarrow> frame
         | Some resolved \<Rightarrow>
             (case lnFunction resolved of
                None \<Rightarrow> frame
              | Some fn \<Rightarrow>
                  let frame1 = (if fnName fn \<noteq> []
                                then frame\<lparr>FunctionName := fnName fn,
                                           ShortName := ExtractShortName (fnName fn),
                                           PackageName := ExtractPackageName (fnName fn)\<rparr>
                                else frame);
                      frame2 = (if fnFilename fn \<noteq> [] then frame1\<lparr>FilePath := fnFilename fn\<rparr>
                                else frame1);
                      frame3 = (if lnLine resolved > 0 then frame2\<lparr>LineNumber := lnLine resolved\<rparr>
                                else frame2)
                  in (case classifier e of
                        None \<Rightarrow> frame3
                      | Some c \<Rightarrow> frame3\<lparr>Category := Classify c (PackageName frame3)\<rparr>)))"

section \<open>Rule engine: findings and deduplication (\<^verbatim>\<open>pkg/rules/engine.go\<close>)\<close>

record Finding =
  RuleID :: string
  RuleName :: string
  Severity :: string
  Title :: string
  Evidence :: "string \<rightharpoonup> string"
  Suggestions :: "string list"
  IsCrossAnalysis :: bool

text \<open>
  The map literal \<^verbatim>\<open>keywordPatterns\<close> of \<^verbatim>\<open>extractTitleKeyword\<close> and
  \<^verbatim>\<open>extractAllTitleKeywords\<close>, its entries in the order of the source text. The
  Chinese patterns are their UTF-8 bytes.
\<close>

definition keywordPatterns :: "(string \<times> string list) list" where
  "keywordPatterns =
     [
      (''memory_leak'',
       [[CHR 0xE5, CHR 0x86, CHR 0x85, CHR 0xE5, CHR 0xAD, CHR 0x98, CHR 0xE5, CHR 0xA2, CHR 0x9E, CHR 0xE9, CHR 0x95, CHR 0xBF],
        [CHR 0xE5, CHR 0x86, CHR 0x85, CHR 0xE5, CHR 0xAD, CHR 0x98, CHR 0xE6, CHR 0xB3, CHR 0x84, CHR 0xE6, CHR 0xBC, CHR 0x8F],
        ''memory leak'',
        ''memory growth'']),
      (''goroutine_leak'',
       [''goroutine'',
        [CHR 0xE5, CHR 0x8D, CHR 0x8F, CHR 0xE7, CHR 0xA8, CHR 0x8B, CHR 0xE6, CHR 0xB3, CHR 0x84, CHR 0xE6, CHR 0xBC, CHR 0x8F],
        [CHR 0xE5, CHR 0x8D, CHR 0x8F, CHR 0xE7, CHR 0xA8, CHR 0x8B, CHR 0xE5, CHR 0xA2, CHR 0x9E, CHR 0xE9, CHR 0x95, CHR 0xBF]]),
      (''cpu_hotspot'',
       [''cpu'',
        [CHR 0xE7, CHR 0x83, CHR 0xAD, CHR 0xE7, CHR 0x82, CHR 0xB9, CHR 0xE5, CHR 0x87, CHR 0xBD, CHR 0xE6, CHR 0x95, CHR 0xB0],
        ''cpu hotspot''])]"

text \<open>The inner loop over the patterns of one keyword: does any of them occur in the title?\<close>

fun patternLoop :: "string \<Rightarrow> string list \<Rightarrow> bool" where
  "patternLoop titleLower [] = False"
| "patternLoop titleLower (pattern # rest) =
     (if containsString titleLower (toLowerString pattern) then True
      else patternLoop titleLower rest)"

text \<open>
  \<^verbatim>\<open>extractTitleKeyword\<close> ranges over the Go map and returns the first keyword one of
  whose patterns matches. Go leaves the iteration order of a map unspecified, so the
  order in which this call visits the entries is the argument \<open>ord\<close>.
\<close>

fun keywordLoop :: "string \<Rightarrow> (string \<times> string list) list \<Rightarrow> string" where
  "keywordLoop titleLower [] = []"
| "keywordLoop titleLower ((keyword, patterns) # rest) =
     (if patternLoop titleLower patterns then keyword else keywordLoop titleLower rest)"

definition extractTitleKeyword :: "(string \<times> string list) list \<Rightarrow> string \<Rightarrow> string" where
  "extractTitleKeyword ord title = keywordLoop (toLowerString title) ord"

text \<open>\<^verbatim>\<open>extractAllTitleKeywords\<close>: every keyword with a matching pattern, once each.\<close>

fun allKeywordsLoop :: "string \<Rightarrow> (string \<times> string list) list \<Rightarrow> string list" where
  "allKeywordsLoop titleLower [] = []"
| "allKeywordsLoop titleLower ((keyword, patterns) # rest) =
     (if patternLoop titleLower patterns then keyword # allKeywordsLoop titleLower rest
      else allKeywordsLoop titleLower rest)"

definition extractAllTitleKeywords :: "(string \<times> string list) list \<Rightarrow> string \<Rightarrow> string list" where
  "extractAllTitleKeywords ord title = allKeywordsLoop (toLowerString title) ord"

text \<open>
  The state of the two loops of \<^verbatim>\<open>deduplicateFindings\<close>: the maps \<^verbatim>\<open>seen\<close> and
  \<^verbatim>\<open>seenTitleKeywords\<close> (sets of their true keys) and the result slice.
\<close>

record DedupState =
  seen :: "string set"
  seenTitleKeywords :: "string set"
  result :: "Finding list"

text \<open>
  The loop over the cross-analysis findings. \<open>crossOrd i\<close> is the map iteration order
  of the call of \<^verbatim>\<open>extractAllTitleKeywords\<close> in iteration \<open>i\<close>.
\<close>

fun crossLoop ::
  "(nat \<Rightarrow> (string \<times> string list) list) \<Rightarrow> nat \<Rightarrow> Finding list \<Rightarrow> DedupState \<Rightarrow> DedupState" where
  "crossLoop crossOrd i [] st = st"
| "crossLoop crossOrd i (finding # rest) st =
     (let key = RuleID finding @ '':'' @ Title finding in
      if key \<in> seen st then crossLoop crossOrd (Suc i) rest st
      else crossLoop crossOrd (Suc i) rest
             \<lparr>seen = insert key (seen st),
              seenTitleKeywords =
                seenTitleKeywords st \<union> set (extractAllTitleKeywords (crossOrd i) (Title finding)),
              result = result st @ [finding]\<rparr>)"

text \<open>
  The loop over the single-type findings. \<open>singleOrd i\<close> is the map iteration order of
  the call of \<^verbatim>\<open>extractTitleKeyword\<close> in iteration \<open>i\<close>.
\<close>

fun singleLoop ::
  "(nat \<Rightarrow> (string \<times> string list) list) \<Rightarrow> nat \<Rightarrow> Finding list \<Rightarrow> DedupState \<Rightarrow> DedupState" where
  "singleLoop singleOrd i [] st = st"
| "singleLoop singleOrd i (finding # rest) st =
     (let key = RuleID finding @ '':'' @ Title finding in
      if key \<in> seen st then singleLoop singleOrd (Suc i) rest st
      else
        let titleKeyword = extractTitleKeyword (singleOrd i) (Title finding) in
        if titleKeyword \<noteq> [] \<and> titleKeyword \<in> seenTitleKeywords st
        then singleLoop singleOrd (Suc i) rest st
        else singleLoop singleOrd (Suc i) rest
               \<lparr>seen = insert key (seen st),
                seenTitleKeywords =
                  (if titleKeyword \<noteq> [] then insert titleKeyword (seenTitleKeywords st)
                   else seenTitleKeywords st),
                result = result st @ [finding]\<rparr>)"

definition deduplicateFindings ::
  "(nat \<Rightarrow> (string \<times> string list) list) \<Rightarrow> (nat \<Rightarrow> (string \<times> string list) list) \<Rightarrow>
   Finding list \<Rightarrow> Finding list" where
  "deduplicateFindings crossOrd singleOrd findings =
     (if length findings \<le> 1 then findings
      else
        let crossFindings = filter IsCrossAnalysis findings;
            singleFindings = filter (\<lambda>f. \<not> IsCrossAnalysis f) findings;
            st0 = \<lparr>seen = {}, seenTitleKeywords = {}, result = []\<rparr>;
            st1 = crossLoop crossOrd 0 crossFindings st0;
            st2 = singleLoop singleOrd 0 singleFindings st1
        in result st2)"

text \<open>
  What it means for a title to carry a keyword domain, as the specification words it: one
  of the domain's patterns occurs in the lower-cased title.
\<close>

definition carriesKeyword :: "string \<Rightarrow> string \<Rightarrow> bool" where
  "carriesKeyword title keyword =
     list_ex (\<lambda>(k, patterns). k = keyword \<and>
                list_ex (\<lambda>pattern. containsString (toLowerString title) (toLowerString pattern))
                  patterns)
       keywordPatterns"

section \<open>Floating-point numbers\<close>

text \<open>
  A \<^verbatim>\<open>float64\<close> is a finite value, an infinity or NaN. The two zeros are one value
  \<open>Finite 0\<close>: the functions modelled below compare, add, multiply and clamp, which
  do not tell the zeros apart, and they divide only by values they have tested to be
  non-zero.

  Every arithmetic operation computes the exact real result and rounds it with the
  function \<open>rnd\<close>, an argument of each operation; operations are rounded one by one
  (no fused multiply-add). A theorem stated for every \<open>rnd\<close> holds
  whatever the rounding and overflow behaviour is; \<open>round64\<close> below is the rounding of
  IEEE 754 binary64 (round to nearest, ties to even), which Go uses.
\<close>

datatype float64 = Finite real | PosInf | NegInf | NaN

definition IsNaN :: "float64 \<Rightarrow> bool" where
  "IsNaN f = (f = NaN)"

text \<open>\<^verbatim>\<open>math.IsInf(f, 0)\<close>: either infinity.\<close>

definition IsInf :: "float64 \<Rightarrow> bool" where
  "IsInf f = (f = PosInf \<or> f = NegInf)"

fun fneg :: "float64 \<Rightarrow> float64" where
  "fneg (Finite x) = Finite (- x)"
| "fneg PosInf = NegInf"
| "fneg NegInf = PosInf"
| "fneg NaN = NaN"

fun fadd :: "(real \<Rightarrow> float64) \<Rightarrow> float64 \<Rightarrow> float64 \<Rightarrow> float64" where
  "fadd rnd (Finite x) (Finite y) = rnd (x + y)"
| "fadd rnd NaN b = NaN"
| "fadd rnd a NaN = NaN"
| "fadd rnd PosInf NegInf = NaN"
| "fadd rnd NegInf PosInf = NaN"
| "fadd rnd PosInf b = PosInf"
| "fadd rnd NegInf b = NegInf"
| "fadd rnd a PosInf = PosInf"
| "fadd rnd a NegInf = NegInf"

definition fsub :: "(real \<Rightarrow> float64) \<Rightarrow> float64 \<Rightarrow> float64 \<Rightarrow> float64" where
  "fsub rnd a b = fadd rnd a (fneg b)"

text \<open>The sign of a product or quotient with an infinite operand.\<close>

definition signedInf :: "bool \<Rightarrow> float64" where
  "signedInf negative = (if negative then NegInf else PosInf)"

fun fmul :: "(real \<Rightarrow> float64) \<Rightarrow> float64 \<Rightarrow> float64 \<Rightarrow> float64" where
  "fmul rnd (Finite x) (Finite y) = rnd (x * y)"
| "fmul rnd NaN b = NaN"
| "fmul rnd a NaN = NaN"
| "fmul rnd (Finite x) PosInf = (if x = 0 then NaN else signedInf (x < 0))"
| "fmul rnd (Finite x) NegInf = (if x = 0 then NaN else signedInf (0 < x))"
| "fmul rnd PosInf (Finite y) = (if y = 0 then NaN else signedInf (y < 0))"
| "fmul rnd NegInf (Finite y) = (if y = 0 then NaN else signedInf (0 < y))"
| "fmul rnd PosInf PosInf = PosInf"
| "fmul rnd PosInf NegInf = NegInf"
| "fmul rnd NegInf PosInf = NegInf"
| "fmul rnd NegInf NegInf = PosInf"

fun fdiv :: "(real \<Rightarrow> float64) \<Rightarrow> float64 \<Rightarrow> float64 \<Rightarrow> float64" where
  "fdiv rnd (Finite x) (Finite y) =
     (if y \<noteq> 0 then rnd (x / y) else if x = 0 then NaN else signedInf (x < 0))"
| "fdiv rnd NaN b = NaN"
| "fdiv rnd a NaN = NaN"
| "fdiv rnd (Finite x) PosInf = Finite 0"
| "fdiv rnd (Finite x) NegInf = Finite 0"
| "fdiv rnd PosInf (Finite y) = signedInf (y < 0)"
| "fdiv rnd NegInf (Finite y) = signedInf (\<not> y < 0)"
| "fdiv rnd PosInf b = NaN"
| "fdiv rnd NegInf b = NaN"

text \<open>The comparisons \<open><\<close> and \<open>==\<close>; both are false when an operand is NaN.\<close>

fun flt :: "float64 \<Rightarrow> float64 \<Rightarrow> bool" where
  "flt (Finite x) (Finite y) = (x < y)"
| "flt NaN b = False"
| "flt a NaN = False"
| "flt a NegInf = False"
| "flt PosInf b = False"
| "flt NegInf b = True"
| "flt a PosInf = True"

definition fgt :: "float64 \<Rightarrow> float64 \<Rightarrow> bool" where
  "fgt a b = flt b a"

definition feq :: "float64 \<Rightarrow> float64 \<Rightarrow> bool" where
  "feq a b = (a \<noteq> NaN \<and> a = b)"

definition fle :: "float64 \<Rightarrow> float64 \<Rightarrow> bool" where
  "fle a b = (flt a b \<or> feq a b)"

definition fge :: "float64 \<Rightarrow> float64 \<Rightarrow> bool" where
  "fge a b = fle b a"

text \<open>
  \<^verbatim>\<open>math.Max\<close> and \<^verbatim>\<open>math.Min\<close> of the Go library, with their special cases in
  the library's order: an infinity of the function's own direction first, then NaN.
\<close>

definition fmax :: "float64 \<Rightarrow> float64 \<Rightarrow> float64" where
  "fmax x y =
     (if x = PosInf \<or> y = PosInf then PosInf
      else if IsNaN x \<or> IsNaN y then NaN
      else if fgt x y then x else y)"

definition fmin :: "float64 \<Rightarrow> float64 \<Rightarrow> float64" where
  "fmin x y =
     (if x = NegInf \<or> y = NegInf then NegInf
      else if IsNaN x \<or> IsNaN y then NaN
      else if flt x y then x else y)"

text \<open>The conversion \<^verbatim>\<open>float64(i)\<close> of an integer: the nearest \<^verbatim>\<open>float64\<close>.\<close>

definition ofInt :: "(real \<Rightarrow> float64) \<Rightarrow> int \<Rightarrow> float64" where
  "ofInt rnd i = rnd (of_int i)"

subsection \<open>IEEE 754 binary64 rounding\<close>

text \<open>\<open>pow2 e\<close> is \<open>2\<close> to the integer power \<open>e\<close>.\<close>

definition pow2 :: "int \<Rightarrow> real" where
  "pow2 e = (if 0 \<le> e then 2 ^ nat e else 1 / 2 ^ nat (- e))"

text \<open>
  The binary exponent of a positive real \<open>a\<close>: the \<open>e\<close> with \<open>2^e \<le> a < 2^(e+1)\<close>,
  from the bit length of \<open>\<lfloor>a\<rfloor>\<close> when \<open>1 \<le> a\<close> and of \<open>\<lceil>1/a\<rceil> - 1\<close> otherwise.
\<close>

definition exponentOf :: "real \<Rightarrow> int" where
  "exponentOf a = (if 1 \<le> a then bitlen \<lfloor>a\<rfloor> - 1 else - bitlen (\<lceil>1 / a\<rceil> - 1))"

text \<open>Rounding a real to the nearest integer, a tie going to the even neighbour.\<close>

definition roundHalfEven :: "real \<Rightarrow> int" where
  "roundHalfEven q =
     (let f = \<lfloor>q\<rfloor>; d = q - of_int f in
      if d < 1 / 2 then f
      else if 1 / 2 < d then f + 1
      else if even f then f else f + 1)"

text \<open>
  \<open>round64 x\<close>: the binary64 value nearest to \<open>x\<close>. The spacing of the binary64 values
  around \<open>x\<close> is \<open>2^(e - 52)\<close> for the exponent \<open>e\<close> of \<open>|x|\<close>, and \<open>2^(-1074)\<close> in the
  subnormal range; a result of magnitude \<open>2^1024\<close> or more is an infinity.
\<close>

definition round64 :: "real \<Rightarrow> float64" where
  "round64 x =
     (if x = 0 then Finite 0
      else
        let a = \<bar>x\<bar>;
            e = max (exponentOf a) (- 1022);
            ulp = pow2 (e - 52);
            r = of_int (roundHalfEven (a / ulp)) * ulp
        in if pow2 1024 \<le> r then signedInf (x < 0)
           else Finite (if x < 0 then - r else r))"

section \<open>Trend analysis (\<^verbatim>\<open>pkg/analyzer\<close>)\<close>

text \<open>
  \<^verbatim>\<open>FunctionStat\<close>, \<^verbatim>\<open>ProfileMetrics\<close>, \<^verbatim>\<open>ProfileFile\<close> and \<^verbatim>\<open>ProfileGroup\<close>.
  The 64-bit integer fields are integers (assumed in range; the one subtraction on them
  is wrapped where it is modelled). \<^verbatim>\<open>TopAllocFunctions\<close> is read by
  \<^verbatim>\<open>AnalyzeHeapInsights\<close>; it has the type of \<^verbatim>\<open>TopFunctions\<close>.
\<close>

record FunctionStat =
  Name :: string
  StatFlat :: int
  StatFlatPct :: float64
  StatCum :: int
  StatCumPct :: float64

record ProfileMetrics =
  TotalSamples :: int
  TotalValue :: int
  Duration :: int
  NumLocations :: int
  NumFunctions :: int
  CPUTime :: int
  AllocObjects :: int
  AllocSpace :: int
  InuseObjects :: int
  InuseSpace :: int
  GoroutineCount :: int
  TopFunctions :: "FunctionStat list"
  TopAllocFunctions :: "FunctionStat list"

record ProfileFile =
  Path :: string
  Time :: int
  Size :: int
  FileProfile :: "Profile option"
  Metrics :: "ProfileMetrics option"

record ProfileGroup =
  GroupType :: string
  Files :: "ProfileFile list"

record TrendMetrics =
  Slope :: float64
  R2 :: float64
  Direction :: string

record GroupTrends =
  HeapInuse :: "TrendMetrics option"
  GoroutineCountTrend :: "TrendMetrics option"

text \<open>The first loop of \<^verbatim>\<open>LinearRegression\<close>: is some value NaN or infinite?\<close>

fun invalidLoop :: "float64 list \<Rightarrow> bool" where
  "invalidLoop [] = False"
| "invalidLoop (v # rest) = (if IsNaN v \<or> IsInf v then True else invalidLoop rest)"

text \<open>The second loop: the four running sums, \<open>i\<close> being the index of the next value.\<close>

fun sumLoop ::
  "(real \<Rightarrow> float64) \<Rightarrow> int \<Rightarrow> float64 list \<Rightarrow>
   float64 \<times> float64 \<times> float64 \<times> float64 \<Rightarrow> float64 \<times> float64 \<times> float64 \<times> float64" where
  "sumLoop rnd i [] acc = acc"
| "sumLoop rnd i (y # rest) (sumX, sumY, sumXY, sumX2) =
     (let x = ofInt rnd i in
      sumLoop rnd (i + 1) rest
        (fadd rnd sumX x, fadd rnd sumY y, fadd rnd sumXY (fmul rnd x y),
         fadd rnd sumX2 (fmul rnd x x)))"

text \<open>
  The third loop: the residual and total sums of squares; \<open>None\<close> is its early
  \<^verbatim>\<open>return 0, 0\<close> on a NaN or infinite prediction.
\<close>

fun resLoop ::
  "(real \<Rightarrow> float64) \<Rightarrow> float64 \<Rightarrow> float64 \<Rightarrow> float64 \<Rightarrow> int \<Rightarrow> float64 list \<Rightarrow>
   float64 \<times> float64 \<Rightarrow> (float64 \<times> float64) option" where
  "resLoop rnd slope intercept meanY i [] acc = Some acc"
| "resLoop rnd slope intercept meanY i (y # rest) (ssRes, ssTot) =
     (let x = ofInt rnd i;
          predicted = fadd rnd (fmul rnd slope x) intercept
      in if IsNaN predicted \<or> IsInf predicted then None
         else resLoop rnd slope intercept meanY (i + 1) rest
                (fadd rnd ssRes (fmul rnd (fsub rnd y predicted) (fsub rnd y predicted)),
                 fadd rnd ssTot (fmul rnd (fsub rnd y meanY) (fsub rnd y meanY))))"

text \<open>\<^verbatim>\<open>LinearRegression\<close>; the result is the pair \<open>(slope, r2)\<close>.\<close>

definition LinearRegression :: "(real \<Rightarrow> float64) \<Rightarrow> float64 list \<Rightarrow> float64 \<times> float64" where
  "LinearRegression rnd values =
     (let n = ofInt rnd (int (length values)) in
      if flt n (Finite 2) then (Finite 0, Finite 0)
      else if invalidLoop values then (Finite 0, Finite 0)
      else
        case sumLoop rnd 0 values (Finite 0, Finite 0, Finite 0, Finite 0) of
          (sumX, sumY, sumXY, sumX2) \<Rightarrow>
            let meanX = fdiv rnd sumX n;
                meanY = fdiv rnd sumY n
            in if IsNaN meanY \<or> IsInf meanY then (Finite 0, Finite 0)
               else
                 let numerator = fsub rnd sumXY (fmul rnd (fmul rnd n meanX) meanY);
                     denominator = fsub rnd sumX2 (fmul rnd (fmul rnd n meanX) meanX)
                 in if feq denominator (Finite 0) then (Finite 0, Finite 0)
                    else
                      let slope = fdiv rnd numerator denominator
                      in if IsNaN slope \<or> IsInf slope then (Finite 0, Finite 0)
                         else
                           let intercept = fsub rnd meanY (fmul rnd slope meanX)
                           in if IsNaN intercept \<or> IsInf intercept then (Finite 0, Finite 0)
                              else
                                (case resLoop rnd slope intercept meanY 0 values
                                        (Finite 0, Finite 0) of
                                   None \<Rightarrow> (Finite 0, Finite 0)
                                 | Some (ssRes, ssTot) \<Rightarrow>
                                     if IsNaN ssRes \<or> IsInf ssRes \<or> IsNaN ssTot \<or> IsInf ssTot
                                     then (Finite 0, Finite 0)
                                     else
                                       let r2a = (if feq ssTot (Finite 0) then Finite 1
                                                  else fsub rnd (Finite 1) (fdiv rnd ssRes ssTot));
                                           r2b = (if IsNaN r2a \<or> IsInf r2a then Finite 0 else r2a);
                                           r2 = fmax (Finite 0) (fmin (Finite 1) r2b)
                                       in (slope, r2)))"

text \<open>\<^verbatim>\<open>getDirection\<close>; the constant \<open>0.01\<close> is converted to \<^verbatim>\<open>float64\<close>.\<close>

definition getDirection :: "(real \<Rightarrow> float64) \<Rightarrow> float64 \<Rightarrow> string" where
  "getDirection rnd slope =
     (let threshold = rnd (1 / 100) in
      if fgt slope threshold then ''increasing''
      else if flt slope (fneg threshold) then ''decreasing''
      else ''stable'')"

text \<open>
  The data points that \<^verbatim>\<open>CalculateTrends\<close> collects: one converted value for each
  file that has metrics.
\<close>

fun collectValues ::
  "(real \<Rightarrow> float64) \<Rightarrow> (ProfileMetrics \<Rightarrow> int) \<Rightarrow> ProfileFile list \<Rightarrow> float64 list" where
  "collectValues rnd field [] = []"
| "collectValues rnd field (file # rest) =
     (case Metrics file of
        None \<Rightarrow> collectValues rnd field rest
      | Some m \<Rightarrow> ofInt rnd (field m) # collectValues rnd field rest)"

definition trendOf :: "(real \<Rightarrow> float64) \<Rightarrow> float64 list \<Rightarrow> TrendMetrics option" where
  "trendOf rnd values =
     (if length values \<ge> 3
      then (case LinearRegression rnd values of
              (slope, r2) \<Rightarrow> Some \<lparr>Slope = slope, R2 = r2, Direction = getDirection rnd slope\<rparr>)
      else None)"

text \<open>\<^verbatim>\<open>CalculateTrends\<close>; a nil result is \<open>None\<close>.\<close>

definition CalculateTrends :: "(real \<Rightarrow> float64) \<Rightarrow> ProfileGroup \<Rightarrow> GroupTrends option" where
  "CalculateTrends rnd grp =
     (if length (Files grp) < 3 then None
      else if GroupType grp = ''heap''
        then Some \<lparr>HeapInuse = trendOf rnd (collectValues rnd InuseSpace (Files grp)),
                   GoroutineCountTrend = None\<rparr>
      else if GroupType grp = ''goroutine''
        then Some \<lparr>HeapInuse = None,
                   GoroutineCountTrend =
                     trendOf rnd (collectValues rnd GoroutineCount (Files grp))\<rparr>
      else Some \<lparr>HeapInuse = None, GoroutineCountTrend = None\<rparr>)"

section \<open>Rule engine: conditions on trends (\<^verbatim>\<open>pkg/rules/engine.go\<close>)\<close>

text \<open>\<^verbatim>\<open>contains\<close> and its \<^verbatim>\<open>containsHelper\<close> loop.\<close>

definition containsHelper :: "string \<Rightarrow> string \<Rightarrow> bool" where
  "containsHelper s substr =
     (if length s < length substr then False
      else containsLoop s substr 0 (Suc (length s - length substr)))"

definition contains :: "string \<Rightarrow> string \<Rightarrow> bool" where
  "contains s substr =
     (length s \<ge> length substr \<and> (s = substr \<or> (length s > 0 \<and> containsHelper s substr)))"

text \<open>
  \<^verbatim>\<open>evaluateCondition\<close>. The thresholds \<open>0.85\<close> and \<open>0.9\<close> are converted constants;
  \<open>10\<close> and \<open>1\<close> are exact.
\<close>

definition evaluateCondition ::
  "(real \<Rightarrow> float64) \<Rightarrow> string \<Rightarrow> ProfileGroup \<Rightarrow> GroupTrends option \<Rightarrow> bool" where
  "evaluateCondition rnd condition grp trends =
     (if condition = ''cpu_profile_exists'' \<and> GroupType grp = ''cpu''
      then length (Files grp) > 0
      else
        case trends of
          None \<Rightarrow> False
        | Some t \<Rightarrow>
            if (case HeapInuse t of
                  None \<Rightarrow> False
                | Some h \<Rightarrow> fgt (R2 h) (rnd (85 / 100)) \<and> fgt (Slope h) (Finite 10)) \<and>
               contains condition ''heap_inuse'' \<and> contains condition ''slope'' \<and>
               length (Files grp) \<ge> 3
            then True
            else if (case GoroutineCountTrend t of
                       None \<Rightarrow> False
                     | Some g \<Rightarrow> fgt (R2 g) (rnd (9 / 10)) \<and> fgt (Slope g) (Finite 1)) \<and>
                    contains condition ''goroutine_count'' \<and> contains condition ''slope'' \<and>
                    length (Files grp) \<ge> 3
            then True
            else False)"

text \<open>\<^verbatim>\<open>evaluateTrendCondition\<close>; \<open>0.7\<close> is a converted constant.\<close>

definition evaluateTrendCondition :: "(real \<Rightarrow> float64) \<Rightarrow> string \<Rightarrow> TrendMetrics \<Rightarrow> bool" where
  "evaluateTrendCondition rnd condition trend =
     (if contains condition ''increasing'' \<and> Direction trend \<noteq> ''increasing'' then False
      else if contains condition ''decreasing'' \<and> Direction trend \<noteq> ''decreasing'' then False
      else if contains condition ''slope > 0'' \<and>
              (fle (Slope trend) (Finite 0) \<or> flt (R2 trend) (rnd (7 / 10))) then False
      else if contains condition ''slope <= 0'' \<and>
              (fgt (Slope trend) (Finite 0) \<and> fgt (R2 trend) (rnd (7 / 10))) then False
      else if contains condition ''slope < 0'' \<and> fge (Slope trend) (Finite 0) then False
      else if contains condition ''slope'' \<and> \<not> contains condition ''slope >'' \<and>
              \<not> contains condition ''slope <'' \<and> \<not> contains condition ''slope ='' \<and>
              flt (R2 trend) (rnd (7 / 10)) then False
      else True)"

text \<open>
  \<^verbatim>\<open>evaluateCrossCondition\<close>: the result and the updated \<^verbatim>\<open>matchedTrends\<close> map.
\<close>

definition evaluateCrossCondition ::
  "(real \<Rightarrow> float64) \<Rightarrow> string \<Rightarrow> string \<Rightarrow> ProfileGroup \<Rightarrow> GroupTrends option \<Rightarrow>
   (string \<rightharpoonup> TrendMetrics) \<Rightarrow> bool \<times> (string \<rightharpoonup> TrendMetrics)" where
  "evaluateCrossCondition rnd condition profileType grp trends matchedTrends =
     (case trends of
        None \<Rightarrow> (False, matchedTrends)
      | Some t \<Rightarrow>
          if length (Files grp) < 3 then (False, matchedTrends)
          else if profileType = ''heap'' then
            (case HeapInuse t of
               None \<Rightarrow> (False, matchedTrends)
             | Some h \<Rightarrow>
                 if evaluateTrendCondition rnd condition h
                 then (True, matchedTrends(''heap'' \<mapsto> h))
                 else (False, matchedTrends))
          else if profileType = ''goroutine'' then
            (case GoroutineCountTrend t of
               None \<Rightarrow> (False, matchedTrends)
             | Some g \<Rightarrow>
                 if evaluateTrendCondition rnd condition g
                 then (True, matchedTrends(''goroutine'' \<mapsto> g))
                 else (False, matchedTrends))
          else if profileType = ''cpu'' then
            (if length (Files grp) > 0
             then (contains condition ''cpu'',
                   matchedTrends(''cpu'' \<mapsto>
                     \<lparr>Slope = Finite 0, R2 = Finite 0, Direction = ''present''\<rparr>))
             else (False, matchedTrends))
          else (False, matchedTrends))"

section \<open>Heap insights (\<^verbatim>\<open>AnalyzeHeapInsights\<close>, package \<^verbatim>\<open>analyzer\<close>)\<close>

text \<open>
  \<^verbatim>\<open>HeapInsight\<close> with its level and title. The description is formatted text
  (\<^verbatim>\<open>fmt.Sprintf\<close>) and is left out. The titles are the UTF-8 bytes of the source.
\<close>

record HeapInsight =
  Level :: string
  InsightTitle :: string

definition titleGCTooLow :: string where
  "titleGCTooLow =
     [CHR 0xE2, CHR 0x9A, CHR 0xA0, CHR 0xEF, CHR 0xB8, CHR 0x8F, CHR 0x20, CHR 0x20,
      CHR 0x47, CHR 0x43, CHR 0x20, CHR 0xE5, CHR 0x9B, CHR 0x9E, CHR 0xE6, CHR 0x94,
      CHR 0xB6, CHR 0xE7, CHR 0x8E, CHR 0x87, CHR 0xE8, CHR 0xBF, CHR 0x87, CHR 0xE4,
      CHR 0xBD, CHR 0x8E]"

definition titleGCLow :: string where
  "titleGCLow =
     [CHR 0xF0, CHR 0x9F, CHR 0x92, CHR 0xA1, CHR 0x20, CHR 0x47, CHR 0x43, CHR 0x20,
      CHR 0xE5, CHR 0x9B, CHR 0x9E, CHR 0xE6, CHR 0x94, CHR 0xB6, CHR 0xE7, CHR 0x8E,
      CHR 0x87, CHR 0xE5, CHR 0x81, CHR 0x8F, CHR 0xE4, CHR 0xBD, CHR 0x8E]"

definition titleInuseHigh :: string where
  "titleInuseHigh =
     [CHR 0xF0, CHR 0x9F, CHR 0x93, CHR 0x8A, CHR 0x20, CHR 0xE5, CHR 0xBD, CHR 0x93,
      CHR 0xE5, CHR 0x89, CHR 0x8D, CHR 0xE5, CHR 0x86, CHR 0x85, CHR 0xE5, CHR 0xAD,
      CHR 0x98, CHR 0xE4, CHR 0xBD, CHR 0xBF, CHR 0xE7, CHR 0x94, CHR 0xA8, CHR 0xE8,
      CHR 0xBE, CHR 0x83, CHR 0xE9, CHR 0xAB, CHR 0x98]"

definition titleAllocHot :: string where
  "titleAllocHot =
     [CHR 0xEF, CHR 0xBF, CHR 0xBD, CHR 0x20, CHR 0xE9, CHR 0xAB, CHR 0x98, CHR 0xE9,
      CHR 0xA2, CHR 0x91, CHR 0xE5, CHR 0x86, CHR 0x85, CHR 0xE5, CHR 0xAD, CHR 0x98,
      CHR 0xE5, CHR 0x88, CHR 0x86, CHR 0xE9, CHR 0x85, CHR 0x8D]"

definition titleTopConsumer :: string where
  "titleTopConsumer =
     [CHR 0xF0, CHR 0x9F, CHR 0x8E, CHR 0xAF, CHR 0x20, CHR 0xE4, CHR 0xB8, CHR 0xBB,
      CHR 0xE8, CHR 0xA6, CHR 0x81, CHR 0xE5, CHR 0x86, CHR 0x85, CHR 0xE5, CHR 0xAD,
      CHR 0x98, CHR 0xE5, CHR 0x8D, CHR 0xA0, CHR 0xE7, CHR 0x94, CHR 0xA8, CHR 0xE7,
      CHR 0x82, CHR 0xB9]"


text \<open>The 64-bit signed result of an integer operation: wrap-around into \<open>[-2^63, 2^63)\<close>.\<close>

definition int64 :: "int \<Rightarrow> int" where
  "int64 x = (x + 2 ^ 63) mod 2 ^ 64 - 2 ^ 63"

text \<open>Step 1: the GC reclaim rate.\<close>

definition gcRateOf :: "(real \<Rightarrow> float64) \<Rightarrow> ProfileMetrics \<Rightarrow> float64" where
  "gcRateOf rnd metrics =
     fmul rnd
       (fdiv rnd (ofInt rnd (int64 (AllocSpace metrics - InuseSpace metrics)))
                 (ofInt rnd (AllocSpace metrics)))
       (Finite 100)"

definition gcInsights :: "(real \<Rightarrow> float64) \<Rightarrow> ProfileMetrics \<Rightarrow> HeapInsight list" where
  "gcInsights rnd metrics =
     (if AllocSpace metrics > 0
      then
        let gcRate = gcRateOf rnd metrics in
        if flt gcRate (Finite 50) then [\<lparr>Level = ''critical'', InsightTitle = titleGCTooLow\<rparr>]
        else if flt gcRate (Finite 80) then [\<lparr>Level = ''warning'', InsightTitle = titleGCLow\<rparr>]
        else []
      else [])"

text \<open>Step 2: memory in use, in MB.\<close>

definition inuseInsights :: "(real \<Rightarrow> float64) \<Rightarrow> ProfileMetrics \<Rightarrow> HeapInsight list" where
  "inuseInsights rnd metrics =
     (let inuseMB = fdiv rnd (fdiv rnd (ofInt rnd (InuseSpace metrics)) (Finite 1024)) (Finite 1024)
      in if fgt inuseMB (Finite 1024)
         then [\<lparr>Level = ''warning'', InsightTitle = titleInuseHigh\<rparr>]
         else [])"

text \<open>Step 3: cumulative allocation, in GB.\<close>

definition allocInsights :: "(real \<Rightarrow> float64) \<Rightarrow> ProfileMetrics \<Rightarrow> HeapInsight list" where
  "allocInsights rnd metrics =
     (if length (TopAllocFunctions metrics) > 0
      then
        let allocGB = fdiv rnd (fdiv rnd (fdiv rnd (ofInt rnd (AllocSpace metrics)) (Finite 1024))
                                   (Finite 1024)) (Finite 1024)
        in if fgt allocGB (Finite 10)
           then [\<lparr>Level = ''warning'', InsightTitle = titleAllocHot\<rparr>]
           else []
      else [])"

text \<open>\<^verbatim>\<open>isStdLib\<close>: the two tests, on the library names and on the hosting prefixes.\<close>

definition stdLibs :: "string list" where
  "stdLibs =
     [''encoding/json'', ''encoding/xml'', ''encoding/'', ''database/sql'', ''net/http'',
      ''net/'', ''io/'', ''bufio'', ''bytes'', ''strings'', ''fmt'', ''log'', ''sync'', ''time'',
      ''crypto/'', ''hash/'']"

fun stdLibLoop :: "string \<Rightarrow> string list \<Rightarrow> bool" where
  "stdLibLoop funcName [] = False"
| "stdLibLoop funcName (lib # rest) =
     (if stringsContains funcName lib then True else stdLibLoop funcName rest)"

definition isStdLib :: "string \<Rightarrow> bool" where
  "isStdLib funcName =
     (if stdLibLoop funcName stdLibs then True
      else if stringsContains funcName ''github.com/'' \<or>
              stringsContains funcName ''google.golang.org/'' \<or>
              stringsContains funcName ''go.uber.org/'' \<or>
              stringsContains funcName ''gopkg.in/'' then True
      else False)"

text \<open>Step 4: the top function by memory in use, when it is business code.\<close>

definition topInsights :: "ProfileMetrics \<Rightarrow> HeapInsight list" where
  "topInsights metrics =
     (case TopFunctions metrics of
        [] \<Rightarrow> []
      | topFunc # rest \<Rightarrow>
          let funcName = Name topFunc in
          if \<not> stringsContains funcName ''runtime.'' \<and>
             \<not> stringsContains funcName ''runtime/'' \<and>
             \<not> isStdLib funcName \<and>
             fgt (StatFlatPct topFunc) (Finite 10)
          then [\<lparr>Level = ''info'', InsightTitle = titleTopConsumer\<rparr>]
          else [])"

definition AnalyzeHeapInsights ::
  "(real \<Rightarrow> float64) \<Rightarrow> ProfileMetrics option \<Rightarrow> HeapInsight list" where
  "AnalyzeHeapInsights rnd metrics =
     (case metrics of
        None \<Rightarrow> []
      | Some m \<Rightarrow> gcInsights rnd m @ inuseInsights rnd m @ allocInsights rnd m @ topInsights m)"

section \<open>Call-chain aggregation (\<^verbatim>\<open>pkg/locator\<close>)\<close>

text \<open>
  \<^verbatim>\<open>CallChain\<close>. \<^verbatim>\<open>TotalValue\<close> is an \<^verbatim>\<open>int64\<close>, \<^verbatim>\<open>TotalPct\<close> a \<^verbatim>\<open>float64\<close> and
  \<^verbatim>\<open>SampleCount\<close> an \<^verbatim>\<open>int\<close>, taken as 64 bits wide (as on amd64 and arm64).
\<close>

record CallChain =
  Frames :: "StackFrame list"
  TotalValue :: int
  TotalPct :: float64
  SampleCount :: int
  CategoryBreakdown :: "CodeCategory \<rightharpoonup> int"
  BoundaryPoints :: "int list"

text \<open>
  The body of the aggregation loop. The Go map \<^verbatim>\<open>aggregated\<close> from key to chain is an
  association list. A key already present has the three totals of the chain added to its
  entry: the two integers wrap around at 64 bits and the percentage is a rounded
  floating-point sum. A new key gets a copy of the chain.
\<close>

fun aggregateInto ::
  "(real \<Rightarrow> float64) \<Rightarrow> (string \<times> CallChain) list \<Rightarrow> string \<Rightarrow> CallChain
     \<Rightarrow> (string \<times> CallChain) list" where
  "aggregateInto rnd [] key chain =
     [(key, \<lparr>Frames = Frames chain, TotalValue = TotalValue chain, TotalPct = TotalPct chain,
             SampleCount = SampleCount chain, CategoryBreakdown = CategoryBreakdown chain,
             BoundaryPoints = BoundaryPoints chain\<rparr>)]"
| "aggregateInto rnd ((k, existing) # rest) key chain =
     (if k = key
      then (k, existing\<lparr>TotalValue := int64 (TotalValue existing + TotalValue chain),
                         TotalPct := fadd rnd (TotalPct existing) (TotalPct chain),
                         SampleCount := int64 (SampleCount existing + SampleCount chain)\<rparr>) # rest
      else (k, existing) # aggregateInto rnd rest key chain)"

text \<open>
  \<^verbatim>\<open>AggregateCallChains\<close>. The source tree holds two copies of the path analyzer, which
  differ in the key of this function.

  The copy in \<^verbatim>\<open>pkg/locator/analyzer.go\<close> keys on \<^verbatim>\<open>generateCallChainKey\<close>; it is
  \<open>AggregateCallChains\<close> below. The other copy, the one that also defines
  \<^verbatim>\<open>generateSmartCallChainKey\<close>, keys on that function; it is
  \<open>AggregateCallChainsSmart\<close>. The rest of the two bodies is the same.

  The result is filled by a \<^verbatim>\<open>range\<close> over the Go map, whose order is unspecified: the
  argument \<open>order\<close> is the order in which that loop visits the entries. An empty input
  gives \<^verbatim>\<open>nil\<close>, here \<open>None\<close>.
\<close>

definition AggregateCallChains ::
  "(real \<Rightarrow> float64) \<Rightarrow> ((string \<times> CallChain) list \<Rightarrow> (string \<times> CallChain) list)
     \<Rightarrow> CallChain list \<Rightarrow> CallChain list option" where
  "AggregateCallChains rnd order chainList =
     (if length chainList = 0 then None
      else
        let aggregated =
              foldl (\<lambda>aggregated chain.
                       aggregateInto rnd aggregated (generateCallChainKey (Frames chain)) chain)
                [] chainList
        in Some (map snd (order aggregated)))"

definition AggregateCallChainsSmart ::
  "(real \<Rightarrow> float64) \<Rightarrow> ((string \<times> CallChain) list \<Rightarrow> (string \<times> CallChain) list)
     \<Rightarrow> CallChain list \<Rightarrow> CallChain list option" where
  "AggregateCallChainsSmart rnd order chainList =
     (if length chainList = 0 then None
      else
        let aggregated =
              foldl (\<lambda>aggregated chain.
                       aggregateInto rnd aggregated (generateSmartCallChainKey (Frames chain)) chain)
                [] chainList
        in Some (map snd (order aggregated)))"

section \<open>Exact values of the regression sums\<close>

text \<open>
  The sums that the second loop of \<^verbatim>\<open>LinearRegression\<close> accumulates over the indices
  \<open>0, \<dots>, i - 1\<close> when no rounding occurs: the sum of the indices and the sum of their
  squares. They are used to state and prove what the function computes on a constant
  series.
\<close>

fun indexSum :: "nat \<Rightarrow> int" where
  "indexSum 0 = 0"
| "indexSum (Suc i) = indexSum i + int i"

fun squareSum :: "nat \<Rightarrow> int" where
  "squareSum 0 = 0"
| "squareSum (Suc i) = squareSum i + int i * int i"

section \<open>Theorems: profile type detection\<close>

lemma sampleTypeLoop_not_mutex: "sampleTypeLoop lower sts \<noteq> Some ''mutex''"
  by (induction sts) (simp_all add: Let_def)

lemma detectProfileType_not_mutex: "detectProfileType lower p \<noteq> ''mutex''"
  using sampleTypeLoop_not_mutex [of lower]
  by (auto simp add: detectProfileType_def split: option.splits)

text \<open>
  Claim C10. \<^verbatim>\<open>detectProfileType\<close> never returns \<open>mutex\<close>, whatever the profile and
  whatever \<^verbatim>\<open>strings.ToLower\<close> computes, so no profile is filed under a \<open>mutex\<close> group
  key; a profile whose first sample type is \<open>contentions\<close>/\<open>count\<close> (after lowering) is
  detected as \<open>block\<close>, because the block branch is tested before the mutex branch.
\<close>

theorem detectProfileType_never_mutex:
  "detectProfileType lower p \<noteq> ''mutex'' \<and> groupKey lower q \<noteq> ''mutex'' \<and>
   (lower (vtType st) = ''contentions'' \<and> lower (vtUnit st) = ''count'' \<longrightarrow>
      detectProfileType lower (Some \<lparr>SampleType = st # rest, DurationNanos = d\<rparr>) = ''block'')"
proof (intro conjI impI)
  show "detectProfileType lower p \<noteq> ''mutex''"
    by (rule detectProfileType_not_mutex)
  show "groupKey lower q \<noteq> ''mutex''"
    using detectProfileType_not_mutex [of lower "Some q"] by (simp add: groupKey_def Let_def)
  assume "lower (vtType st) = ''contentions'' \<and> lower (vtUnit st) = ''count''"
  then show "detectProfileType lower (Some \<lparr>SampleType = st # rest, DurationNanos = d\<rparr>) = ''block''"
    by (simp add: detectProfileType_def)
qed

theorem detectProfileType_never_mutex_witness:
  "toLowerString ''Contentions'' = ''contentions'' \<and> toLowerString ''count'' = ''count'' \<and>
   detectProfileType toLowerString
     (Some \<lparr>SampleType = [\<lparr>vtType = ''Contentions'', vtUnit = ''count''\<rparr>],
            DurationNanos = 0\<rparr>) = ''block''"
  using detectProfileType_never_mutex [of toLowerString None undefined
      "\<lparr>vtType = ''Contentions'', vtUnit = ''count''\<rparr>" "[]" 0]
  by code_simp


section \<open>Theorems: classifier\<close>

text \<open>
  Claim C5. When a non-empty module prefix is configured and the package name equals it
  or begins with it followed by \<open>/\<close>, \<^verbatim>\<open>Classify\<close> returns business unless the runtime
  or the standard-library rule applies first; this holds for every classifier, so also
  for a package under one of the fixed hosting prefixes.
\<close>

theorem Classify_module_business:
  "moduleName c \<noteq> [] \<Longrightarrow>
   packageName = moduleName c \<or> HasPrefix packageName (moduleName c @ ''/'') \<Longrightarrow>
   \<not> isRuntimePackage c packageName \<Longrightarrow> \<not> isStdlibPackage c packageName \<Longrightarrow>
   Classify c packageName = CategoryBusiness"
  by (auto simp add: Classify_def isBusinessPackage_def HasPrefix_def)

theorem Classify_module_business_witness:
  "moduleName (NewClassifier \<lparr>ModuleName = ''github.com/myapp'', ThirdPartyPrefixes = [],
       MaxCallStackDepth = 10, MaxHotPaths = 5\<rparr>) \<noteq> [] \<and>
   HasPrefix ''github.com/myapp/handler'' (''github.com/myapp'' @ ''/'') \<and>
   HasPrefix ''github.com/myapp/handler'' ''github.com/'' \<and>
   Classify (NewClassifier \<lparr>ModuleName = ''github.com/myapp'', ThirdPartyPrefixes = [],
       MaxCallStackDepth = 10, MaxHotPaths = 5\<rparr>) ''github.com/myapp/handler''
     = CategoryBusiness"
  using Classify_module_business
    [of "NewClassifier \<lparr>ModuleName = ''github.com/myapp'', ThirdPartyPrefixes = [],
           MaxCallStackDepth = 10, MaxHotPaths = 5\<rparr>" "''github.com/myapp/handler''"]
  by code_simp

section \<open>Theorems: stack frame extraction\<close>

text \<open>
  Claim C4 as stated fails: with a nil line and a location without line entries the
  returned frame's \<^verbatim>\<open>PackageName\<close> is the empty string, not \<open>unknown\<close>.
\<close>

theorem ExtractStackFrame_PackageName_counterexample:
  "PackageName
     (ExtractStackFrame
        \<lparr>classifier = Some (NewClassifier \<lparr>ModuleName = ''github.com/myapp'',
            ThirdPartyPrefixes = [], MaxCallStackDepth = 10, MaxHotPaths = 5\<rparr>)\<rparr>
        (Some \<lparr>locLine = []\<rparr>) None) \<noteq> ''unknown''"
  by (simp add: ExtractStackFrame_def initialFrame_def)

text \<open>
  Claim C4, amended. When no function can be resolved (the line argument is nil and the
  location is nil or has no line entries, or the resolved line has a nil function),
  \<^verbatim>\<open>ExtractStackFrame\<close> returns the frame with \<^verbatim>\<open>FunctionName\<close>, \<^verbatim>\<open>ShortName\<close> and
  \<^verbatim>\<open>FilePath\<close> equal to \<open>unknown\<close>, \<^verbatim>\<open>PackageName\<close> empty, every numeric field 0 and
  category unknown.
\<close>

theorem ExtractStackFrame_no_function:
  assumes "(line = None \<and> (case loc of None \<Rightarrow> True | Some l \<Rightarrow> locLine l = [])) \<or>
           (case line of
              Some r \<Rightarrow> lnFunction r = None
            | None \<Rightarrow> (case loc of
                         None \<Rightarrow> False
                       | Some l \<Rightarrow> locLine l \<noteq> [] \<and> lnFunction (locLine l ! 0) = None))"
  shows "ExtractStackFrame e loc line =
           \<lparr>FunctionName = ''unknown'', ShortName = ''unknown'', PackageName = [],
            FilePath = ''unknown'', LineNumber = 0, Category = CategoryUnknown,
            Flat = 0, FlatPct = 0, Cum = 0, CumPct = 0\<rparr>"
  using assms
  by (auto simp add: ExtractStackFrame_def initialFrame_def split: option.splits)

theorem ExtractStackFrame_no_function_witness:
  "lnFunction \<lparr>lnFunction = None, lnLine = 10\<rparr> = None \<and>
   ExtractStackFrame
     \<lparr>classifier = Some (NewClassifier \<lparr>ModuleName = ''github.com/myapp'',
         ThirdPartyPrefixes = [], MaxCallStackDepth = 10, MaxHotPaths = 5\<rparr>)\<rparr>
     (Some \<lparr>locLine = [\<lparr>lnFunction = None, lnLine = 10\<rparr>]\<rparr>)
     (Some \<lparr>lnFunction = None, lnLine = 10\<rparr>) =
       \<lparr>FunctionName = ''unknown'', ShortName = ''unknown'', PackageName = [],
        FilePath = ''unknown'', LineNumber = 0, Category = CategoryUnknown,
        Flat = 0, FlatPct = 0, Cum = 0, CumPct = 0\<rparr>"
  using ExtractStackFrame_no_function
    [of "Some \<lparr>lnFunction = None, lnLine = 10\<rparr>"
        "Some \<lparr>locLine = [\<lparr>lnFunction = None, lnLine = 10\<rparr>]\<rparr>"
        "\<lparr>classifier = Some (NewClassifier \<lparr>ModuleName = ''github.com/myapp'',
            ThirdPartyPrefixes = [], MaxCallStackDepth = 10, MaxHotPaths = 5\<rparr>)\<rparr>"]
  by simp

section \<open>Theorems: deduplication of findings\<close>

lemma crossLoop_inv:
  "distinct (map (\<lambda>f. RuleID f @ '':'' @ Title f) (result st)) \<Longrightarrow>
   (\<lambda>f. RuleID f @ '':'' @ Title f) ` set (result st) \<subseteq> seen st \<Longrightarrow>
   distinct (map (\<lambda>f. RuleID f @ '':'' @ Title f) (result (crossLoop crossOrd i fs st))) \<and>
   (\<lambda>f. RuleID f @ '':'' @ Title f) ` set (result (crossLoop crossOrd i fs st))
     \<subseteq> seen (crossLoop crossOrd i fs st)"
proof (induction fs arbitrary: i st)
  case Nil
  then show ?case by simp
next
  case (Cons f fs)
  show ?case
  proof (cases "RuleID f @ '':'' @ Title f \<in> seen st")
    case True
    then show ?thesis using Cons.IH [OF Cons.prems] by simp
  next
    case False
    let ?st = "\<lparr>seen = insert (RuleID f @ '':'' @ Title f) (seen st),
              seenTitleKeywords =
                seenTitleKeywords st \<union> set (extractAllTitleKeywords (crossOrd i) (Title f)),
              result = result st @ [f]\<rparr>"
    have d: "distinct (map (\<lambda>f. RuleID f @ '':'' @ Title f) (result ?st))"
      using Cons.prems False by auto
    have s: "(\<lambda>f. RuleID f @ '':'' @ Title f) ` set (result ?st) \<subseteq> seen ?st"
      using Cons.prems by auto
    show ?thesis using Cons.IH [OF d s] False by (simp add: Let_def)
  qed
qed

lemma singleLoop_inv:
  "distinct (map (\<lambda>f. RuleID f @ '':'' @ Title f) (result st)) \<Longrightarrow>
   (\<lambda>f. RuleID f @ '':'' @ Title f) ` set (result st) \<subseteq> seen st \<Longrightarrow>
   distinct (map (\<lambda>f. RuleID f @ '':'' @ Title f) (result (singleLoop singleOrd i fs st)))"
proof (induction fs arbitrary: i st)
  case Nil
  then show ?case by simp
next
  case (Cons f fs)
  let ?k = "extractTitleKeyword (singleOrd i) (Title f)"
  let ?st = "\<lparr>seen = insert (RuleID f @ '':'' @ Title f) (seen st),
              seenTitleKeywords = (if ?k \<noteq> [] then insert ?k (seenTitleKeywords st)
                   else seenTitleKeywords st),
              result = result st @ [f]\<rparr>"
  show ?case
  proof (cases "RuleID f @ '':'' @ Title f \<in> seen st")
    case True
    then show ?thesis using Cons.IH [OF Cons.prems] by (simp add: Let_def)
  next
    case False
    show ?thesis
    proof (cases "?k \<noteq> [] \<and> ?k \<in> seenTitleKeywords st")
      case True
      then show ?thesis using Cons.IH [OF Cons.prems] False by (simp add: Let_def)
    next
      case notcovered: False
      have d: "distinct (map (\<lambda>f. RuleID f @ '':'' @ Title f) (result ?st))"
        using Cons.prems False by auto
      have s: "(\<lambda>f. RuleID f @ '':'' @ Title f) ` set (result ?st) \<subseteq> seen ?st"
        using Cons.prems by auto
      show ?thesis using Cons.IH [OF d s, of "Suc i"] False notcovered by (auto simp add: Let_def)
    qed
  qed
qed

lemma deduplicateFindings_keys_distinct:
  "2 \<le> length findings \<Longrightarrow>
   distinct (map (\<lambda>f. RuleID f @ '':'' @ Title f) (deduplicateFindings crossOrd singleOrd findings))"
proof -
  assume "2 \<le> length findings"
  let ?st0 = "\<lparr>seen = {}, seenTitleKeywords = {}, result = []\<rparr> :: DedupState"
  have c: "distinct (map (\<lambda>f. RuleID f @ '':'' @ Title f) (result (crossLoop crossOrd 0 (filter IsCrossAnalysis findings) ?st0))) \<and>
   (\<lambda>f. RuleID f @ '':'' @ Title f) ` set (result (crossLoop crossOrd 0 (filter IsCrossAnalysis findings) ?st0))
     \<subseteq> seen (crossLoop crossOrd 0 (filter IsCrossAnalysis findings) ?st0)"
    by (rule crossLoop_inv) simp_all
  show ?thesis
    using singleLoop_inv [OF conjunct1 [OF c] conjunct2 [OF c]] \<open>2 \<le> length findings\<close>
    by (simp add: deduplicateFindings_def Let_def)
qed

lemma distinct_map_fun: "distinct (map (\<lambda>x. g (h x)) xs) \<Longrightarrow> distinct (map h xs)"
  by (induction xs) auto

text \<open>
  The second half of claim C2 holds in every run: no two findings of the output have the
  same \<^verbatim>\<open>RuleID\<close> and \<^verbatim>\<open>Title\<close>.
\<close>

lemma deduplicateFindings_pairs_distinct:
  "2 \<le> length findings \<Longrightarrow>
   distinct (map (\<lambda>f. (RuleID f, Title f)) (deduplicateFindings crossOrd singleOrd findings))"
  using deduplicateFindings_keys_distinct [of findings crossOrd singleOrd]
    distinct_map_fun [of "\<lambda>(r, t). r @ '':'' @ t" "\<lambda>f. (RuleID f, Title f)"]
  by simp

text \<open>
  The first half of claim C2 holds for a single-type finding whose title carries one
  keyword domain only: whatever order the map iterations take, it is not in the output
  next to a cross-analysis finding of the output whose title carries that keyword.
\<close>

lemma patternLoop_iff:
  "patternLoop titleLower patterns
     = list_ex (\<lambda>pattern. containsString titleLower (toLowerString pattern)) patterns"
  by (induction patterns) auto

lemma carriesKeyword_iff:
  "carriesKeyword title K
     = (\<exists>patterns. (K, patterns) \<in> set keywordPatterns \<and> patternLoop (toLowerString title) patterns)"
  by (auto simp add: carriesKeyword_def list_ex_iff patternLoop_iff)

lemma allKeywordsLoop_set:
  "set (allKeywordsLoop titleLower ord)
     = {k. \<exists>patterns. (k, patterns) \<in> set ord \<and> patternLoop titleLower patterns}"
  by (induction titleLower ord rule: allKeywordsLoop.induct) auto

lemma extractAllTitleKeywords_set:
  "set ord = set keywordPatterns \<Longrightarrow>
   set (extractAllTitleKeywords ord title) = {K. carriesKeyword title K}"
  by (simp add: extractAllTitleKeywords_def allKeywordsLoop_set carriesKeyword_iff)

lemma keywordLoop_match:
  "(k, patterns) \<in> set ord \<Longrightarrow> patternLoop titleLower patterns \<Longrightarrow>
   \<exists>k' patterns'. (k', patterns') \<in> set ord \<and> patternLoop titleLower patterns' \<and>
     keywordLoop titleLower ord = k'"
  by (induction titleLower ord rule: keywordLoop.induct) auto

lemma keywordPatterns_nonempty: "(k, patterns) \<in> set keywordPatterns \<Longrightarrow> k \<noteq> []"
  by (auto simp add: keywordPatterns_def)

lemma extractTitleKeyword_unique:
  assumes "set ord = set keywordPatterns" and "carriesKeyword title K"
    and "\<forall>K'. carriesKeyword title K' \<longrightarrow> K' = K"
  shows "extractTitleKeyword ord title = K \<and> K \<noteq> []"
proof -
  obtain patterns where p: "(K, patterns) \<in> set keywordPatterns"
      "patternLoop (toLowerString title) patterns"
    using assms(2) by (auto simp add: carriesKeyword_iff)
  then have "(K, patterns) \<in> set ord" using assms(1) by simp
  from keywordLoop_match [OF this p(2)]
  obtain k' patterns' where k: "(k', patterns') \<in> set ord"
      "patternLoop (toLowerString title) patterns'"
      "keywordLoop (toLowerString title) ord = k'" by blast
  then have "carriesKeyword title k'" using assms(1) by (auto simp add: carriesKeyword_iff)
  then have "k' = K" using assms(3) by blast
  then show ?thesis using k(3) keywordPatterns_nonempty [OF p(1)]
    by (simp add: extractTitleKeyword_def)
qed

lemma crossLoop_result:
  "(\<forall>f\<in>set (result st). IsCrossAnalysis f \<and> (\<forall>K. carriesKeyword (Title f) K \<longrightarrow> K \<in> seenTitleKeywords st)) \<Longrightarrow>
   \<forall>f\<in>set fs. IsCrossAnalysis f \<Longrightarrow>
   \<forall>i. set (crossOrd i) = set keywordPatterns \<Longrightarrow>
   \<forall>f\<in>set (result (crossLoop crossOrd i fs st)).
      IsCrossAnalysis f \<and>
      (\<forall>K. carriesKeyword (Title f) K \<longrightarrow> K \<in> seenTitleKeywords (crossLoop crossOrd i fs st))"
proof (induction fs arbitrary: i st)
  case Nil
  then show ?case by simp
next
  case (Cons f fs)
  show ?case
  proof (cases "RuleID f @ '':'' @ Title f \<in> seen st")
    case True
    then show ?thesis using Cons.IH [OF Cons.prems(1)] Cons.prems(2,3) by simp
  next
    case False
    let ?st = "\<lparr>seen = insert (RuleID f @ '':'' @ Title f) (seen st),
              seenTitleKeywords =
                seenTitleKeywords st \<union> set (extractAllTitleKeywords (crossOrd i) (Title f)),
              result = result st @ [f]\<rparr>"
    have "set (extractAllTitleKeywords (crossOrd i) (Title f)) = {K. carriesKeyword (Title f) K}"
      using Cons.prems(3) by (intro extractAllTitleKeywords_set) simp
    then have inv: "\<forall>g\<in>set (result ?st). IsCrossAnalysis g \<and>
        (\<forall>K. carriesKeyword (Title g) K \<longrightarrow> K \<in> seenTitleKeywords ?st)"
      using Cons.prems(1,2) by auto
    show ?thesis using Cons.IH [OF inv, of "Suc i"] Cons.prems(2,3) False by (simp add: Let_def)
  qed
qed

lemma singleLoop_result:
  "base \<subseteq> seenTitleKeywords st \<Longrightarrow>
   \<forall>f\<in>set (result (singleLoop singleOrd i fs st)).
      f \<in> set (result st) \<or>
      (f \<in> set fs \<and>
       (\<exists>j. extractTitleKeyword (singleOrd j) (Title f) = [] \<or>
             extractTitleKeyword (singleOrd j) (Title f) \<notin> base))"
proof (induction fs arbitrary: i st)
  case Nil
  then show ?case by simp
next
  case (Cons f fs)
  let ?k = "extractTitleKeyword (singleOrd i) (Title f)"
  let ?st = "\<lparr>seen = insert (RuleID f @ '':'' @ Title f) (seen st),
              seenTitleKeywords = (if ?k \<noteq> [] then insert ?k (seenTitleKeywords st)
                   else seenTitleKeywords st),
              result = result st @ [f]\<rparr>"
  show ?case
  proof (cases "RuleID f @ '':'' @ Title f \<in> seen st \<or> (?k \<noteq> [] \<and> ?k \<in> seenTitleKeywords st)")
    case True
    then have "singleLoop singleOrd i (f # fs) st = singleLoop singleOrd (Suc i) fs st"
      by (auto simp add: Let_def)
    then show ?thesis using Cons.IH [OF Cons.prems, of "Suc i"] by auto
  next
    case False
    then have eq: "singleLoop singleOrd i (f # fs) st = singleLoop singleOrd (Suc i) fs ?st"
      by (auto simp add: Let_def)
    have b: "base \<subseteq> seenTitleKeywords ?st" using Cons.prems by auto
    have kf: "?k = [] \<or> ?k \<notin> base" using False Cons.prems by auto
    show ?thesis
      unfolding eq using Cons.IH [OF b, of "Suc i"] kf by auto
  qed
qed



lemma deduplicateFindings_suppresses:
  assumes len: "2 \<le> length findings"
    and co: "\<forall>i. set (crossOrd i) = set keywordPatterns"
    and so: "\<forall>i. set (singleOrd i) = set keywordPatterns"
    and c: "c \<in> set (deduplicateFindings crossOrd singleOrd findings)" "IsCrossAnalysis c"
    and cK: "carriesKeyword (Title c) K"
    and s: "\<not> IsCrossAnalysis s" "carriesKeyword (Title s) K"
      "\<forall>K'. carriesKeyword (Title s) K' \<longrightarrow> K' = K"
  shows "s \<notin> set (deduplicateFindings crossOrd singleOrd findings)"
proof
  let ?st0 = "\<lparr>seen = {}, seenTitleKeywords = {}, result = []\<rparr> :: DedupState"
  let ?st1 = "crossLoop crossOrd 0 (filter IsCrossAnalysis findings) ?st0"
  let ?singles = "filter (\<lambda>f. \<not> IsCrossAnalysis f) findings"
  let ?st2 = "singleLoop singleOrd 0 ?singles ?st1"
  have out: "deduplicateFindings crossOrd singleOrd findings = result ?st2"
    using len by (simp add: deduplicateFindings_def Let_def)
  have cross: "\<forall>f\<in>set (result ?st1). IsCrossAnalysis f \<and>
      (\<forall>K. carriesKeyword (Title f) K \<longrightarrow> K \<in> seenTitleKeywords ?st1)"
  proof (rule crossLoop_result)
    show "\<forall>f\<in>set (result ?st0). IsCrossAnalysis f \<and>
      (\<forall>K. carriesKeyword (Title f) K \<longrightarrow> K \<in> seenTitleKeywords ?st0)" by simp
    show "\<forall>f\<in>set (filter IsCrossAnalysis findings). IsCrossAnalysis f" by simp
    show "\<forall>i. set (crossOrd i) = set keywordPatterns" by (rule co)
  qed
  have single: "\<forall>f\<in>set (result ?st2). f \<in> set (result ?st1) \<or>
      (f \<in> set ?singles \<and>
       (\<exists>j. extractTitleKeyword (singleOrd j) (Title f) = [] \<or>
             extractTitleKeyword (singleOrd j) (Title f) \<notin> seenTitleKeywords ?st1))"
    by (rule singleLoop_result) (rule subset_refl)
  have "c \<in> set (result ?st2)" using c(1) out by simp
  then have "c \<in> set (result ?st1) \<or> c \<in> set ?singles" using single by blast
  then have "c \<in> set (result ?st1)" using c(2) by simp
  then have Kseen: "K \<in> seenTitleKeywords ?st1" using cross cK by blast
  assume "s \<in> set (deduplicateFindings crossOrd singleOrd findings)"
  then have sin: "s \<in> set (result ?st2)" using out by simp
  have "s \<in> set (result ?st1) \<or>
      (s \<in> set ?singles \<and>
       (\<exists>j. extractTitleKeyword (singleOrd j) (Title s) = [] \<or>
             extractTitleKeyword (singleOrd j) (Title s) \<notin> seenTitleKeywords ?st1))"
    using single sin by (rule bspec)
  moreover have "s \<notin> set (result ?st1)" using cross s(1) by blast
  ultimately have "\<exists>j. extractTitleKeyword (singleOrd j) (Title s) = [] \<or>
             extractTitleKeyword (singleOrd j) (Title s) \<notin> seenTitleKeywords ?st1"
    by blast
  then obtain j where j: "extractTitleKeyword (singleOrd j) (Title s) = [] \<or>
             extractTitleKeyword (singleOrd j) (Title s) \<notin> seenTitleKeywords ?st1" ..
  have u: "extractTitleKeyword (singleOrd j) (Title s) = K \<and> K \<noteq> []"
  proof (rule extractTitleKeyword_unique)
    show "set (singleOrd j) = set keywordPatterns" using so by (rule spec)
    show "carriesKeyword (Title s) K" by (rule s(2))
    show "\<forall>K'. carriesKeyword (Title s) K' \<longrightarrow> K' = K" by (rule s(3))
  qed
  from u have u1: "extractTitleKeyword (singleOrd j) (Title s) = K" by (rule conjunct1)
  from u have u2: "K \<noteq> []" by (rule conjunct2)
  from j have "K = [] \<or> K \<notin> seenTitleKeywords ?st1" unfolding u1 .
  then show False using u2 Kseen by blast
qed


text \<open>
  Claim C2, first half, at a concrete input. The cross-analysis finding's title carries
  \<open>memory_leak\<close>; the single-type finding's title carries \<open>goroutine_leak\<close> and
  \<open>memory_leak\<close>. When the map iteration of \<^verbatim>\<open>extractTitleKeyword\<close> reaches
  \<open>goroutine_leak\<close> first, the single-type finding is kept next to the cross-analysis
  finding; when it reaches \<open>memory_leak\<close> first, it is suppressed.
\<close>

theorem deduplicateFindings_keyword_order:
  "carriesKeyword ''Memory leak confirmed'' ''memory_leak'' \<and>
   carriesKeyword ''Goroutine growth causes memory growth'' ''memory_leak'' \<and>
   map (\<lambda>f. (RuleID f, IsCrossAnalysis f))
     (deduplicateFindings (\<lambda>i. keywordPatterns) (\<lambda>i. rotate1 keywordPatterns)
        [\<lparr>RuleID = ''goroutine_growth'', RuleName = ''Goroutine growth'', Severity = ''medium'',
          Title = ''Goroutine growth causes memory growth'', Evidence = Map.empty,
          Suggestions = [], IsCrossAnalysis = False\<rparr>,
         \<lparr>RuleID = ''cross_memory'', RuleName = ''Cross analysis'', Severity = ''high'',
          Title = ''Memory leak confirmed'', Evidence = Map.empty,
          Suggestions = [], IsCrossAnalysis = True\<rparr>]) =
     [(''cross_memory'', True), (''goroutine_growth'', False)] \<and>
   map (\<lambda>f. (RuleID f, IsCrossAnalysis f))
     (deduplicateFindings (\<lambda>i. keywordPatterns) (\<lambda>i. keywordPatterns)
        [\<lparr>RuleID = ''goroutine_growth'', RuleName = ''Goroutine growth'', Severity = ''medium'',
          Title = ''Goroutine growth causes memory growth'', Evidence = Map.empty,
          Suggestions = [], IsCrossAnalysis = False\<rparr>,
         \<lparr>RuleID = ''cross_memory'', RuleName = ''Cross analysis'', Severity = ''high'',
          Title = ''Memory leak confirmed'', Evidence = Map.empty,
          Suggestions = [], IsCrossAnalysis = True\<rparr>]) =
     [(''cross_memory'', True)]"
  by code_simp


section \<open>Theorems: linear regression and trends\<close>

lemma invalidLoop_iff: "invalidLoop vals = (\<exists>v\<in>set vals. IsNaN v \<or> IsInf v)"
  by (induction vals) auto

text \<open>
  Claim C8. A series that contains a NaN or an infinity makes \<^verbatim>\<open>LinearRegression\<close>
  return slope 0 and R-squared 0, whatever the rounding: either the series is shorter than 2
  or the first loop finds the value.
\<close>

theorem LinearRegression_invalid_input:
  "\<exists>v\<in>set vals. IsNaN v \<or> IsInf v \<Longrightarrow> LinearRegression rnd vals = (Finite 0, Finite 0)"
  by (simp add: LinearRegression_def Let_def invalidLoop_iff)

theorem LinearRegression_invalid_input_witness:
  "(\<exists>v\<in>set [Finite 1, NaN, Finite 3]. IsNaN v \<or> IsInf v) \<and>
   LinearRegression round64 [Finite 1, NaN, Finite 3] = (Finite 0, Finite 0)"
  using LinearRegression_invalid_input [of "[Finite 1, NaN, Finite 3]" round64]
  by (simp add: IsNaN_def)

lemma clamp_unit:
  "\<not> IsNaN r \<Longrightarrow> \<not> IsInf r \<Longrightarrow>
   \<exists>v. fmax (Finite 0) (fmin (Finite 1) r) = Finite v \<and> 0 \<le> v \<and> v \<le> 1"
  by (cases r) (auto simp add: fmax_def fmin_def fgt_def IsNaN_def IsInf_def)

lemma clamp_r2:
  "\<exists>v. fmax (Finite 0) (fmin (Finite 1) (if IsNaN r \<or> IsInf r then Finite 0 else r)) = Finite v
       \<and> 0 \<le> v \<and> v \<le> 1"
proof (cases "IsNaN r \<or> IsInf r")
  case True
  then show ?thesis by (simp add: fmax_def fmin_def fgt_def IsNaN_def IsInf_def)
next
  case False
  then show ?thesis using clamp_unit [of r] by simp
qed

text \<open>
  Claim C7. For a series of at least two values, none of them NaN or infinite, the R-squared
  returned by \<^verbatim>\<open>LinearRegression\<close> is a finite number between 0 and 1, whatever the
  rounding: every early return gives 0 and the last statement clamps.
\<close>

theorem LinearRegression_r2_bounds:
  "2 \<le> length vals \<Longrightarrow> \<forall>v\<in>set vals. \<not> IsNaN v \<and> \<not> IsInf v \<Longrightarrow>
   \<exists>r. snd (LinearRegression rnd vals) = Finite r \<and> 0 \<le> r \<and> r \<le> 1"
  using clamp_r2
  by (auto simp add: LinearRegression_def Let_def split: prod.splits option.splits)

theorem LinearRegression_r2_bounds_witness:
  "2 \<le> length [Finite 1, Finite 3, Finite 5] \<and>
   \<not> IsNaN (Finite 1) \<and> \<not> IsInf (Finite 1) \<and> \<not> IsNaN (Finite 3) \<and> \<not> IsInf (Finite 3) \<and>
   \<not> IsNaN (Finite 5) \<and> \<not> IsInf (Finite 5) \<and>
   (\<exists>r. snd (LinearRegression round64 [Finite 1, Finite 3, Finite 5]) = Finite r \<and>
        0 \<le> r \<and> r \<le> 1)"
  using LinearRegression_r2_bounds [of "[Finite 1, Finite 3, Finite 5]" round64]
  by (simp add: IsNaN_def IsInf_def)

text \<open>
  Claim C9. A group of fewer than 3 files gets no trends from \<^verbatim>\<open>CalculateTrends\<close>
  (the nil result), and with that result no condition of a single-type rule other than
  the CPU presence test, and no condition of a cross-analysis rule, is met for the group.
\<close>

theorem CalculateTrends_few_files:
  "length (Files grp) < 3 \<Longrightarrow>
   CalculateTrends rnd grp = None \<and>
   (\<forall>condition. \<not> (condition = ''cpu_profile_exists'' \<and> GroupType grp = ''cpu'') \<longrightarrow>
      \<not> evaluateCondition rnd condition grp (CalculateTrends rnd grp)) \<and>
   (\<forall>condition profileType matchedTrends.
      \<not> fst (evaluateCrossCondition rnd condition profileType grp (CalculateTrends rnd grp)
               matchedTrends))"
  by (auto simp add: CalculateTrends_def evaluateCondition_def evaluateCrossCondition_def)

theorem CalculateTrends_few_files_witness:
  "length (Files \<lparr>GroupType = ''heap'',
      Files = [\<lparr>Path = ''a.pprof'', Time = 1, Size = 10, FileProfile = None, Metrics = None\<rparr>,
               \<lparr>Path = ''b.pprof'', Time = 2, Size = 10, FileProfile = None, Metrics = None\<rparr>]\<rparr>) < 3 \<and>
   CalculateTrends round64 \<lparr>GroupType = ''heap'',
      Files = [\<lparr>Path = ''a.pprof'', Time = 1, Size = 10, FileProfile = None, Metrics = None\<rparr>,
               \<lparr>Path = ''b.pprof'', Time = 2, Size = 10, FileProfile = None, Metrics = None\<rparr>]\<rparr> = None \<and>
   \<not> evaluateCondition round64 ''trends.heap_inuse.slope > 0''
       \<lparr>GroupType = ''heap'',
        Files = [\<lparr>Path = ''a.pprof'', Time = 1, Size = 10, FileProfile = None, Metrics = None\<rparr>,
                 \<lparr>Path = ''b.pprof'', Time = 2, Size = 10, FileProfile = None, Metrics = None\<rparr>]\<rparr>
       None"
proof -
  let ?g = "\<lparr>GroupType = ''heap'',
      Files = [\<lparr>Path = ''a.pprof'', Time = 1, Size = 10, FileProfile = None, Metrics = None\<rparr>,
               \<lparr>Path = ''b.pprof'', Time = 2, Size = 10, FileProfile = None, Metrics = None\<rparr>]\<rparr>"
  have few: "length (Files ?g) < 3" by simp
  note th = CalculateTrends_few_files [OF few, of round64]
  have none: "CalculateTrends round64 ?g = None"
    using th by (rule conjunct1)
  have "\<not> evaluateCondition round64 ''trends.heap_inuse.slope > 0'' ?g
          (CalculateTrends round64 ?g)"
    using th [THEN conjunct2, THEN conjunct1, rule_format, of "''trends.heap_inuse.slope > 0''"]
    by simp
  then show ?thesis using few none by simp
qed

section \<open>Lemmas: binary64 rounding\<close>

text \<open>
  The exponent function finds the binade of its argument; rounding is exact on every
  number \<open>m * 2^k\<close> with a 53-bit \<open>m\<close> in the binary64 range; and two evaluation
  lemmas compute \<open>round64\<close> at a given positive number.
\<close>

lemma pow2_powr: "pow2 e = 2 powr (of_int e)"
proof (cases "0 \<le> e")
  case True
  then show ?thesis by (simp add: pow2_def powr_realpow [symmetric])
next
  case False
  then have "(2::real) powr (of_int e) = 1 / 2 powr (of_int (- e))"
    by (simp add: powr_minus divide_inverse)
  also have "\<dots> = 1 / 2 ^ nat (- e)"
    using False by (simp add: powr_realpow [symmetric])
  finally show ?thesis using False by (simp add: pow2_def)
qed

lemma pow2_pos [simp]: "0 < pow2 e"
  by (simp add: pow2_powr)

lemma pow2_nonzero [simp]: "pow2 e \<noteq> 0"
  by (simp add: pow2_powr)

lemma pow2_nonneg [simp]: "0 \<le> pow2 e"
  by (simp add: pow2_powr)

lemma pow2_abs [simp]: "\<bar>pow2 e\<bar> = pow2 e"
  by (simp add: pow2_powr)

lemma pow2_add: "pow2 (a + b) = pow2 a * pow2 b"
  by (simp add: pow2_powr powr_add)

lemma pow2_mono: "a \<le> b \<Longrightarrow> pow2 a \<le> pow2 b"
  by (simp add: pow2_powr)

lemma pow2_less_iff: "pow2 a < pow2 b \<longleftrightarrow> a < b"
  by (simp add: pow2_powr)

lemma pow2_nat: "0 \<le> e \<Longrightarrow> pow2 e = 2 ^ nat e"
  by (simp add: pow2_def)

lemma exponentOf_eq:
  assumes "0 < a" "pow2 e \<le> a" "a < pow2 (e + 1)"
  shows "exponentOf a = e"
proof (cases "1 \<le> a")
  case True
  have "pow2 0 < pow2 (e + 1)" using True assms(3) by (simp add: pow2_def)
  then have e0: "0 \<le> e" by (simp add: pow2_less_iff)
  have lo: "(2::int) ^ nat e \<le> \<lfloor>a\<rfloor>"
    using assms(2) e0 by (simp add: pow2_nat le_floor_iff)
  have hi: "\<lfloor>a\<rfloor> < (2::int) ^ nat (e + 1)"
    using assms(3) e0 by (simp add: pow2_nat floor_less_iff)
  have "bitlen \<lfloor>a\<rfloor> \<le> e + 1"
    using hi e0 by (simp add: bitlen_le_iff_power)
  moreover have "e + 1 \<le> bitlen \<lfloor>a\<rfloor>"
    using lo e0 by (simp add: bitlen_ge_iff_power nat_add_distrib)
  ultimately show ?thesis using True by (simp add: exponentOf_def)
next
  case False
  then have a1: "a < 1" by simp
  have "pow2 e < pow2 0" using a1 assms(2) by (simp add: pow2_def)
  then have e0: "e < 0" by (simp add: pow2_less_iff)
  define k where "k = nat (- e)"
  have k1: "1 \<le> k" and ek: "e = - int k" using e0 by (simp_all add: k_def)
  have pe: "pow2 e = 1 / 2 ^ k" using e0 by (simp add: pow2_def k_def)
  have pe1: "pow2 (e + 1) = 1 / 2 ^ (k - 1)"
    using e0 k1 by (cases "e + 1 = 0") (auto simp add: pow2_def k_def nat_diff_distrib)
  have "1 / a \<le> 2 ^ k"
    using assms(1,2) pe by (simp add: field_simps)
  then have "\<lceil>1 / a\<rceil> \<le> (2::int) ^ k" by (simp add: ceiling_le_iff)
  then have hi: "\<lceil>1 / a\<rceil> - 1 < (2::int) ^ k" by simp
  have "a < 1 / 2 ^ (k - 1)" using assms(3) pe1 by simp
  then have "a * 2 ^ (k - 1) < 1" by (simp add: field_simps)
  then have "2 ^ (k - 1) < 1 / a"
    using assms(1) by (simp add: field_simps)
  then have "(2::int) ^ (k - 1) < \<lceil>1 / a\<rceil>" by (simp add: less_ceiling_iff)
  then have lo: "(2::int) ^ (k - 1) \<le> \<lceil>1 / a\<rceil> - 1" by simp
  have "bitlen (\<lceil>1 / a\<rceil> - 1) \<le> int k"
    using hi by (simp add: bitlen_le_iff_power)
  moreover have "int k \<le> bitlen (\<lceil>1 / a\<rceil> - 1)"
    using lo k1 by (simp add: bitlen_ge_iff_power)
  ultimately show ?thesis using False ek by (simp add: exponentOf_def)
qed

lemma roundHalfEven_of_int [simp]: "roundHalfEven (of_int z) = z"
  by (simp add: roundHalfEven_def)

lemma round64_pos_eval:
  assumes "0 < x" "pow2 e \<le> x" "x < pow2 (e + 1)" "- 1022 \<le> e"
    and "roundHalfEven (x / pow2 (e - 52)) = m"
    and "of_int m * pow2 (e - 52) < pow2 1024"
  shows "round64 x = Finite (of_int m * pow2 (e - 52))"
proof -
  have ex: "exponentOf \<bar>x\<bar> = e"
    using assms(1-3) by (intro exponentOf_eq) simp_all
  have mx: "max e (- 1022) = e" using assms(4) by simp
  have ov: "\<not> pow2 1024 \<le> of_int m * pow2 (e - 52)" using assms(6) by simp
  show ?thesis
    unfolding round64_def Let_def ex mx
    using assms(1) assms(5) ov by simp
qed

lemma round64_exact:
  assumes "\<bar>m\<bar> < 2 ^ 53" "- 1074 \<le> k" "\<bar>of_int m * pow2 k\<bar> < pow2 1024"
  shows "round64 (of_int m * pow2 k) = Finite (of_int m * pow2 k)"
proof (cases "m = 0")
  case True
  then show ?thesis by (simp add: round64_def)
next
  case False
  define n where "n = \<bar>m\<bar>"
  define x where "x = real_of_int m * pow2 k"
  define b where "b = bitlen n"
  have n0: "0 < n" using False by (simp add: n_def)
  have ax: "\<bar>x\<bar> = of_int n * pow2 k"
    by (simp add: x_def n_def abs_mult)
  have x0: "x \<noteq> 0" using False by (simp add: x_def)
  have bb: "2 ^ nat (b - 1) \<le> n \<and> n < 2 ^ nat b"
    unfolding b_def using n0 by (rule bitlen_bounds)
  have b1: "1 \<le> b"
    using n0 bitlen_ge_iff_power [of 1 n] by (simp add: b_def)
  have b53: "b \<le> 53"
    using assms(1) by (simp add: b_def n_def bitlen_le_iff_power)
  define e0 where "e0 = b - 1 + k"
  have lo: "pow2 e0 \<le> \<bar>x\<bar>"
  proof -
    have "pow2 e0 = 2 ^ nat (b - 1) * pow2 k"
      using b1 by (simp add: e0_def pow2_add pow2_nat)
    also have "\<dots> \<le> of_int n * pow2 k"
    proof (rule mult_right_mono)
      have "real_of_int (2 ^ nat (b - 1)) \<le> real_of_int n"
        using bb by (simp only: of_int_le_iff)
      then show "2 ^ nat (b - 1) \<le> real_of_int n" by simp
    qed simp
    finally show ?thesis by (simp add: ax)
  qed
  have hi: "\<bar>x\<bar> < pow2 (e0 + 1)"
  proof -
    have "real_of_int n < real_of_int (2 ^ nat b)"
      using bb by (simp only: of_int_less_iff)
    then have "real_of_int n < 2 ^ nat b" by simp
    then have "of_int n * pow2 k < 2 ^ nat b * pow2 k"
      by (rule mult_strict_right_mono) simp
    also have "\<dots> = pow2 (e0 + 1)"
      using b1 by (simp add: e0_def pow2_add pow2_nat)
    finally show ?thesis by (simp add: ax)
  qed
  have ex: "exponentOf \<bar>x\<bar> = e0"
    using x0 lo hi by (intro exponentOf_eq) simp_all
  define e where "e = max e0 (- 1022)"
  define s where "s = e - 52"
  have ks: "0 \<le> k - s"
    using b53 assms(2) by (simp add: s_def e_def e0_def max_def)
  have pk: "pow2 k = 2 ^ nat (k - s) * pow2 s"
  proof -
    have "pow2 k = pow2 ((k - s) + s)" by simp
    also have "\<dots> = pow2 (k - s) * pow2 s" by (rule pow2_add)
    finally show ?thesis using ks by (simp add: pow2_nat)
  qed
  have q: "\<bar>x\<bar> / pow2 s = of_int (n * 2 ^ nat (k - s))"
    by (simp add: ax pk)
  have r: "of_int (roundHalfEven (\<bar>x\<bar> / pow2 s)) * pow2 s = \<bar>x\<bar>"
    unfolding q roundHalfEven_of_int by (simp add: ax pk)
  have nov: "\<not> pow2 1024 \<le> \<bar>x\<bar>"
    using assms(3) by (simp add: x_def)
  have r': "of_int (roundHalfEven (\<bar>x\<bar> / pow2 (max e0 (- 1022) - 52))) *
              pow2 (max e0 (- 1022) - 52) = \<bar>x\<bar>"
    using r by (simp add: e_def s_def)
  have "round64 x = Finite (if x < 0 then - \<bar>x\<bar> else \<bar>x\<bar>)"
    unfolding round64_def Let_def ex r' using x0 nov by simp
  then show ?thesis by (simp add: x_def)
qed

lemma round64_of_int:
  "\<bar>i\<bar> < 2 ^ 53 \<Longrightarrow> round64 (of_int i) = Finite (of_int i)"
  using round64_exact [of i 0] by (simp add: pow2_def) 

lemma round64_four_fifths: "round64 (4 / 5) = Finite (3602879701896397 / 4503599627370496)"
proof -
  have "round64 (4 / 5) = Finite (of_int 7205759403792794 * pow2 (- 1 - 52))"
    by (rule round64_pos_eval) (simp_all add: pow2_def roundHalfEven_def Let_def)
  then show ?thesis by (simp add: pow2_def)
qed

lemma round64_rate_80: "round64 (3602879701896397 / 4503599627370496 * 100) = Finite 80"
proof -
  have "round64 (3602879701896397 / 4503599627370496 * 100)
          = Finite (of_int 5629499534213120 * pow2 (6 - 52))"
    by (rule round64_pos_eval) (simp_all add: pow2_def roundHalfEven_def Let_def)
  then show ?thesis by (simp add: pow2_def)
qed


section \<open>Theorems: call-chain aggregation key\<close>

lemma keyLoop_Suc: "keyLoop key (Suc i) xs = key @ concat (map (\<lambda>x. ''|'' @ x) xs)"
  by (induction xs arbitrary: key i) simp_all

lemma joinBar_Cons: "joinBar (x # xs) = x @ concat (map (\<lambda>x. ''|'' @ x) xs)"
  by (induction xs arbitrary: x) simp_all

lemma keyLoop_zero: "keyLoop key 0 xs = key @ joinBar xs"
  by (cases xs) (simp_all add: keyLoop_Suc joinBar_Cons)

lemma map_nth_upt_take:
  "m \<le> length xs \<Longrightarrow> map (\<lambda>i. f (xs ! i)) [0..<m] = map f (take m xs)"
  by (rule nth_equalityI) simp_all

text \<open>
  The key that \<^verbatim>\<open>generateSmartCallChainKey\<close> builds in its loops is the specification's
  key, and the key that \<^verbatim>\<open>generateCallChainKey\<close> builds is the names of all frames
  joined by \<open>|\<close>.
\<close>

lemma generateSmartCallChainKey_spec:
  "frames \<noteq> [] \<Longrightarrow> generateSmartCallChainKey frames = specKey frames"
  by (simp add: generateSmartCallChainKey_def specKey_def businessNames_def keyLoop_zero
      map_nth_upt_take Let_def min_def)

lemma generateCallChainKey_joinBar:
  "generateCallChainKey frames = joinBar (map FunctionName frames)"
  by (simp add: generateCallChainKey_def keyLoop_zero)

text \<open>
  The aggregation loop: the keys of the map are the keys of the chains read so far, each
  once, and every entry holds the frames of a chain that has its key.
\<close>

lemma aggregateInto_keys:
  "fst ` set (aggregateInto rnd aggregated key chain) = insert key (fst ` set aggregated)"
  by (induction rnd aggregated key chain rule: aggregateInto.induct) auto

lemma aggregateInto_distinct:
  "distinct (map fst aggregated) \<Longrightarrow>
   distinct (map fst (aggregateInto rnd aggregated key chain))"
  by (induction rnd aggregated key chain rule: aggregateInto.induct)
     (auto simp add: aggregateInto_keys)

lemma aggregateInto_frames:
  "p \<in> set (aggregateInto rnd aggregated key chain) \<Longrightarrow>
   (\<exists>q \<in> set aggregated. fst p = fst q \<and> Frames (snd p) = Frames (snd q)) \<or>
   (fst p = key \<and> Frames (snd p) = Frames chain)"
  by (induction rnd aggregated key chain rule: aggregateInto.induct)
     (auto split: if_splits)

lemma foldl_aggregateInto_keys:
  "fst ` set (foldl (\<lambda>aggregated chain. aggregateInto rnd aggregated (g chain) chain) acc cs)
     = fst ` set acc \<union> g ` set cs"
  by (induction cs arbitrary: acc) (auto simp add: aggregateInto_keys)

lemma foldl_aggregateInto_distinct:
  "distinct (map fst acc) \<Longrightarrow>
   distinct (map fst
     (foldl (\<lambda>aggregated chain. aggregateInto rnd aggregated (g chain) chain) acc cs))"
  by (induction cs arbitrary: acc) (auto simp add: aggregateInto_distinct)

lemma foldl_aggregateInto_frames:
  "p \<in> set (foldl (\<lambda>aggregated chain. aggregateInto rnd aggregated (K (Frames chain)) chain)
              acc cs) \<Longrightarrow>
   (\<exists>q \<in> set acc. fst p = fst q \<and> Frames (snd p) = Frames (snd q)) \<or>
   (\<exists>c \<in> set cs. fst p = K (Frames c) \<and> Frames (snd p) = Frames c)"
proof (induction cs arbitrary: acc)
  case Nil
  then show ?case by auto
next
  case (Cons c cs)
  from Cons.IH [of "aggregateInto rnd acc (K (Frames c)) c"] Cons.prems
  consider
    (old) q where "q \<in> set (aggregateInto rnd acc (K (Frames c)) c)"
      "fst p = fst q" "Frames (snd p) = Frames (snd q)"
  | (new) d where "d \<in> set cs" "fst p = K (Frames d)" "Frames (snd p) = Frames d"
    by auto
  then show ?case
  proof cases
    case old
    from aggregateInto_frames [OF old(1)] old(2,3) show ?thesis by auto
  next
    case new
    then show ?thesis by auto
  qed
qed

lemma aggregate_keyed:
  assumes perm: "\<forall>m. distinct (map fst m) \<longrightarrow>
                     distinct (map fst (order m)) \<and> set (order m) = set m"
    and r: "r = map snd (order (foldl (\<lambda>aggregated chain.
                 aggregateInto rnd aggregated (K (Frames chain)) chain) [] chainList))"
  shows "distinct (map (\<lambda>c. K (Frames c)) r)"
    and "(\<lambda>c. K (Frames c)) ` set r = (\<lambda>c. K (Frames c)) ` set chainList"
    and "Frames ` set r \<subseteq> Frames ` set chainList"
proof -
  define m where "m = foldl (\<lambda>aggregated chain.
                 aggregateInto rnd aggregated (K (Frames chain)) chain) [] chainList"
  have dm: "distinct (map fst m)"
    unfolding m_def by (rule foldl_aggregateInto_distinct) simp
  have km: "fst ` set m = (\<lambda>c. K (Frames c)) ` set chainList"
    unfolding m_def by (simp add: foldl_aggregateInto_keys)
  have fm: "\<exists>c \<in> set chainList. fst p = K (Frames c) \<and> Frames (snd p) = Frames c"
    if "p \<in> set m" for p
    using foldl_aggregateInto_frames [of p rnd K "[]" chainList] that unfolding m_def by simp
  from perm dm have od: "distinct (map fst (order m))" and os: "set (order m) = set m"
    by blast+
  have inv: "K (Frames (snd p)) = fst p" if "p \<in> set (order m)" for p
    using fm [of p] that os by auto
  have rm: "r = map snd (order m)" by (simp add: r m_def)
  have keys: "map (\<lambda>c. K (Frames c)) r = map fst (order m)"
    unfolding rm using inv by (simp add: comp_def)
  show "distinct (map (\<lambda>c. K (Frames c)) r)" unfolding keys by (rule od)
  have "(\<lambda>c. K (Frames c)) ` set r = set (map (\<lambda>c. K (Frames c)) r)" by simp
  also have "\<dots> = fst ` set (order m)" unfolding keys by simp
  also have "\<dots> = (\<lambda>c. K (Frames c)) ` set chainList" by (simp add: os km)
  finally show "(\<lambda>c. K (Frames c)) ` set r = (\<lambda>c. K (Frames c)) ` set chainList" .
  show "Frames ` set r \<subseteq> Frames ` set chainList"
  proof
    fix fs assume "fs \<in> Frames ` set r"
    then obtain p where p: "p \<in> set (order m)" "fs = Frames (snd p)"
      unfolding rm by auto
    from fm [of p] p os show "fs \<in> Frames ` set chainList" by auto
  qed
qed

text \<open>
  Claim C1, amended. For a non-empty list of chains, each with a non-empty frame list, and
  whatever the order of the map iteration and the rounding:

  \<^item> \<^verbatim>\<open>AggregateCallChains\<close> of \<^verbatim>\<open>pkg/locator/analyzer.go\<close> returns one chain for each
    distinct value of the key made of the function names of all the frames, in order,
    joined by \<open>|\<close>, with no prefix and no bound on the number of frames;

  \<^item> the copy of \<^verbatim>\<open>AggregateCallChains\<close> that calls \<^verbatim>\<open>generateSmartCallChainKey\<close> returns
    one chain for each distinct value of the key of the claim: \<open>business:\<close> and the names
    of the business frames in order joined by \<open>|\<close> when there is one, otherwise
    \<open>system:\<close> and the names of the first \<open>min 5 n\<close> frames joined by \<open>|\<close>.

  In both, the chains returned have pairwise different keys, and their keys are exactly the
  keys of the input chains.
\<close>

theorem AggregateCallChains_keys:
  assumes ne: "chainList \<noteq> []"
    and fr: "\<forall>c \<in> set chainList. Frames c \<noteq> []"
    and perm: "\<forall>m. distinct (map fst m) \<longrightarrow>
                     distinct (map fst (order m)) \<and> set (order m) = set m"
  shows "(\<exists>r. AggregateCallChains rnd order chainList = Some r \<and>
              distinct (map (\<lambda>c. joinBar (map FunctionName (Frames c))) r) \<and>
              (\<lambda>c. joinBar (map FunctionName (Frames c))) ` set r
                = (\<lambda>c. joinBar (map FunctionName (Frames c))) ` set chainList) \<and>
         (\<exists>r. AggregateCallChainsSmart rnd order chainList = Some r \<and>
              distinct (map (\<lambda>c. specKey (Frames c)) r) \<and>
              (\<lambda>c. specKey (Frames c)) ` set r = (\<lambda>c. specKey (Frames c)) ` set chainList)"
proof (rule conjI)
  define r where "r = map snd (order (foldl (\<lambda>aggregated chain.
                 aggregateInto rnd aggregated (generateCallChainKey (Frames chain)) chain)
                 [] chainList))"
  have res: "AggregateCallChains rnd order chainList = Some r"
    using ne by (simp add: AggregateCallChains_def r_def Let_def)
  have eq: "(\<lambda>c. generateCallChainKey (Frames c)) = (\<lambda>c. joinBar (map FunctionName (Frames c)))"
    by (simp add: generateCallChainKey_joinBar)
  from aggregate_keyed(1,2) [OF perm r_def] res
  show "\<exists>r. AggregateCallChains rnd order chainList = Some r \<and>
              distinct (map (\<lambda>c. joinBar (map FunctionName (Frames c))) r) \<and>
              (\<lambda>c. joinBar (map FunctionName (Frames c))) ` set r
                = (\<lambda>c. joinBar (map FunctionName (Frames c))) ` set chainList"
    unfolding eq by blast
next
  define r where "r = map snd (order (foldl (\<lambda>aggregated chain.
                 aggregateInto rnd aggregated (generateSmartCallChainKey (Frames chain)) chain)
                 [] chainList))"
  have res: "AggregateCallChainsSmart rnd order chainList = Some r"
    using ne by (simp add: AggregateCallChainsSmart_def r_def Let_def)
  note k = aggregate_keyed [OF perm r_def]
  have rne: "Frames c \<noteq> []" if "c \<in> set r" for c
    using k(3) that fr by auto
  have m1: "map (\<lambda>c. generateSmartCallChainKey (Frames c)) r = map (\<lambda>c. specKey (Frames c)) r"
    using rne by (simp add: generateSmartCallChainKey_spec)
  have i1: "(\<lambda>c. generateSmartCallChainKey (Frames c)) ` set r = (\<lambda>c. specKey (Frames c)) ` set r"
    using rne by (simp add: generateSmartCallChainKey_spec)
  have i2: "(\<lambda>c. generateSmartCallChainKey (Frames c)) ` set chainList
              = (\<lambda>c. specKey (Frames c)) ` set chainList"
    using fr by (simp add: generateSmartCallChainKey_spec)
  from k(1,2) res
  show "\<exists>r. AggregateCallChainsSmart rnd order chainList = Some r \<and>
              distinct (map (\<lambda>c. specKey (Frames c)) r) \<and>
              (\<lambda>c. specKey (Frames c)) ` set r = (\<lambda>c. specKey (Frames c)) ` set chainList"
    unfolding m1 i1 i2 by blast
qed

theorem AggregateCallChains_keys_witness:
  "[\<lparr>Frames =
       [\<lparr>FunctionName = ''app/handler.H'', ShortName = ''H'', PackageName = ''app/handler'',
          FilePath = ''h.go'', LineNumber = 7, Category = CategoryBusiness,
          Flat = 0, FlatPct = 0, Cum = 0, CumPct = 0\<rparr>,
        \<lparr>FunctionName = ''runtime.mallocgc'', ShortName = ''mallocgc'', PackageName = ''runtime'',
          FilePath = ''malloc.go'', LineNumber = 9, Category = CategoryRuntime,
          Flat = 0, FlatPct = 0, Cum = 0, CumPct = 0\<rparr>],
      TotalValue = 1000, TotalPct = Finite 10, SampleCount = 1,
      CategoryBreakdown = Map.empty, BoundaryPoints = [1]\<rparr>,
    \<lparr>Frames =
       [\<lparr>FunctionName = ''app/handler.H'', ShortName = ''H'', PackageName = ''app/handler'',
          FilePath = ''h.go'', LineNumber = 7, Category = CategoryBusiness,
          Flat = 0, FlatPct = 0, Cum = 0, CumPct = 0\<rparr>,
        \<lparr>FunctionName = ''encoding/json.Marshal'', ShortName = ''Marshal'',
          PackageName = ''encoding/json'', FilePath = ''encode.go'', LineNumber = 5,
          Category = CategoryStdlib, Flat = 0, FlatPct = 0, Cum = 0, CumPct = 0\<rparr>,
        \<lparr>FunctionName = ''runtime.mallocgc'', ShortName = ''mallocgc'', PackageName = ''runtime'',
          FilePath = ''malloc.go'', LineNumber = 9, Category = CategoryRuntime,
          Flat = 0, FlatPct = 0, Cum = 0, CumPct = 0\<rparr>],
      TotalValue = 2000, TotalPct = Finite 20, SampleCount = 1,
      CategoryBreakdown = Map.empty, BoundaryPoints = [1]\<rparr>] \<noteq> [] \<and>
   (\<exists>r. AggregateCallChains round64 (\<lambda>m. m)
          [\<lparr>Frames =
              [\<lparr>FunctionName = ''app/handler.H'', ShortName = ''H'', PackageName = ''app/handler'',
                 FilePath = ''h.go'', LineNumber = 7, Category = CategoryBusiness,
                 Flat = 0, FlatPct = 0, Cum = 0, CumPct = 0\<rparr>,
               \<lparr>FunctionName = ''runtime.mallocgc'', ShortName = ''mallocgc'', PackageName = ''runtime'',
                 FilePath = ''malloc.go'', LineNumber = 9, Category = CategoryRuntime,
                 Flat = 0, FlatPct = 0, Cum = 0, CumPct = 0\<rparr>],
             TotalValue = 1000, TotalPct = Finite 10, SampleCount = 1,
             CategoryBreakdown = Map.empty, BoundaryPoints = [1]\<rparr>,
           \<lparr>Frames =
              [\<lparr>FunctionName = ''app/handler.H'', ShortName = ''H'', PackageName = ''app/handler'',
                 FilePath = ''h.go'', LineNumber = 7, Category = CategoryBusiness,
                 Flat = 0, FlatPct = 0, Cum = 0, CumPct = 0\<rparr>,
               \<lparr>FunctionName = ''encoding/json.Marshal'', ShortName = ''Marshal'',
                 PackageName = ''encoding/json'', FilePath = ''encode.go'', LineNumber = 5,
                 Category = CategoryStdlib, Flat = 0, FlatPct = 0, Cum = 0, CumPct = 0\<rparr>,
               \<lparr>FunctionName = ''runtime.mallocgc'', ShortName = ''mallocgc'', PackageName = ''runtime'',
                 FilePath = ''malloc.go'', LineNumber = 9, Category = CategoryRuntime,
                 Flat = 0, FlatPct = 0, Cum = 0, CumPct = 0\<rparr>],
             TotalValue = 2000, TotalPct = Finite 20, SampleCount = 1,
             CategoryBreakdown = Map.empty, BoundaryPoints = [1]\<rparr>] = Some r \<and>
        distinct (map (\<lambda>c. joinBar (map FunctionName (Frames c))) r) \<and>
        (\<lambda>c. joinBar (map FunctionName (Frames c))) ` set r
          = (\<lambda>c. joinBar (map FunctionName (Frames c))) ` set
              [\<lparr>Frames =
                  [\<lparr>FunctionName = ''app/handler.H'', ShortName = ''H'', PackageName = ''app/handler'',
                     FilePath = ''h.go'', LineNumber = 7, Category = CategoryBusiness,
                     Flat = 0, FlatPct = 0, Cum = 0, CumPct = 0\<rparr>,
                   \<lparr>FunctionName = ''runtime.mallocgc'', ShortName = ''mallocgc'', PackageName = ''runtime'',
                     FilePath = ''malloc.go'', LineNumber = 9, Category = CategoryRuntime,
                     Flat = 0, FlatPct = 0, Cum = 0, CumPct = 0\<rparr>],
                 TotalValue = 1000, TotalPct = Finite 10, SampleCount = 1,
                 CategoryBreakdown = Map.empty, BoundaryPoints = [1]\<rparr>,
               \<lparr>Frames =
                  [\<lparr>FunctionName = ''app/handler.H'', ShortName = ''H'', PackageName = ''app/handler'',
                     FilePath = ''h.go'', LineNumber = 7, Category = CategoryBusiness,
                     Flat = 0, FlatPct = 0, Cum = 0, CumPct = 0\<rparr>,
                   \<lparr>FunctionName = ''encoding/json.Marshal'', ShortName = ''Marshal'',
                     PackageName = ''encoding/json'', FilePath = ''encode.go'', LineNumber = 5,
                     Category = CategoryStdlib, Flat = 0, FlatPct = 0, Cum = 0, CumPct = 0\<rparr>,
                   \<lparr>FunctionName = ''runtime.mallocgc'', ShortName = ''mallocgc'', PackageName = ''runtime'',
                     FilePath = ''malloc.go'', LineNumber = 9, Category = CategoryRuntime,
                     Flat = 0, FlatPct = 0, Cum = 0, CumPct = 0\<rparr>],
                 TotalValue = 2000, TotalPct = Finite 20, SampleCount = 1,
                 CategoryBreakdown = Map.empty, BoundaryPoints = [1]\<rparr>]) \<and>
   (\<exists>r. AggregateCallChainsSmart round64 (\<lambda>m. m)
          [\<lparr>Frames =
              [\<lparr>FunctionName = ''app/handler.H'', ShortName = ''H'', PackageName = ''app/handler'',
                 FilePath = ''h.go'', LineNumber = 7, Category = CategoryBusiness,
                 Flat = 0, FlatPct = 0, Cum = 0, CumPct = 0\<rparr>,
               \<lparr>FunctionName = ''runtime.mallocgc'', ShortName = ''mallocgc'', PackageName = ''runtime'',
                 FilePath = ''malloc.go'', LineNumber = 9, Category = CategoryRuntime,
                 Flat = 0, FlatPct = 0, Cum = 0, CumPct = 0\<rparr>],
             TotalValue = 1000, TotalPct = Finite 10, SampleCount = 1,
             CategoryBreakdown = Map.empty, BoundaryPoints = [1]\<rparr>,
           \<lparr>Frames =
              [\<lparr>FunctionName = ''app/handler.H'', ShortName = ''H'', PackageName = ''app/handler'',
                 FilePath = ''h.go'', LineNumber = 7, Category = CategoryBusiness,
                 Flat = 0, FlatPct = 0, Cum = 0, CumPct = 0\<rparr>,
               \<lparr>FunctionName = ''encoding/json.Marshal'', ShortName = ''Marshal'',
                 PackageName = ''encoding/json'', FilePath = ''encode.go'', LineNumber = 5,
                 Category = CategoryStdlib, Flat = 0, FlatPct = 0, Cum = 0, CumPct = 0\<rparr>,
               \<lparr>FunctionName = ''runtime.mallocgc'', ShortName = ''mallocgc'', PackageName = ''runtime'',
                 FilePath = ''malloc.go'', LineNumber = 9, Category = CategoryRuntime,
                 Flat = 0, FlatPct = 0, Cum = 0, CumPct = 0\<rparr>],
             TotalValue = 2000, TotalPct = Finite 20, SampleCount = 1,
             CategoryBreakdown = Map.empty, BoundaryPoints = [1]\<rparr>] = Some r \<and>
        distinct (map (\<lambda>c. specKey (Frames c)) r) \<and>
        (\<lambda>c. specKey (Frames c)) ` set r
          = (\<lambda>c. specKey (Frames c)) ` set
              [\<lparr>Frames =
                  [\<lparr>FunctionName = ''app/handler.H'', ShortName = ''H'', PackageName = ''app/handler'',
                     FilePath = ''h.go'', LineNumber = 7, Category = CategoryBusiness,
                     Flat = 0, FlatPct = 0, Cum = 0, CumPct = 0\<rparr>,
                   \<lparr>FunctionName = ''runtime.mallocgc'', ShortName = ''mallocgc'', PackageName = ''runtime'',
                     FilePath = ''malloc.go'', LineNumber = 9, Category = CategoryRuntime,
                     Flat = 0, FlatPct = 0, Cum = 0, CumPct = 0\<rparr>],
                 TotalValue = 1000, TotalPct = Finite 10, SampleCount = 1,
                 CategoryBreakdown = Map.empty, BoundaryPoints = [1]\<rparr>,
               \<lparr>Frames =
                  [\<lparr>FunctionName = ''app/handler.H'', ShortName = ''H'', PackageName = ''app/handler'',
                     FilePath = ''h.go'', LineNumber = 7, Category = CategoryBusiness,
                     Flat = 0, FlatPct = 0, Cum = 0, CumPct = 0\<rparr>,
                   \<lparr>FunctionName = ''encoding/json.Marshal'', ShortName = ''Marshal'',
                     PackageName = ''encoding/json'', FilePath = ''encode.go'', LineNumber = 5,
                     Category = CategoryStdlib, Flat = 0, FlatPct = 0, Cum = 0, CumPct = 0\<rparr>,
                   \<lparr>FunctionName = ''runtime.mallocgc'', ShortName = ''mallocgc'', PackageName = ''runtime'',
                     FilePath = ''malloc.go'', LineNumber = 9, Category = CategoryRuntime,
                     Flat = 0, FlatPct = 0, Cum = 0, CumPct = 0\<rparr>],
                 TotalValue = 2000, TotalPct = Finite 20, SampleCount = 1,
                 CategoryBreakdown = Map.empty, BoundaryPoints = [1]\<rparr>])"
  using AggregateCallChains_keys
    [of "[\<lparr>Frames =
            [\<lparr>FunctionName = ''app/handler.H'', ShortName = ''H'', PackageName = ''app/handler'',
               FilePath = ''h.go'', LineNumber = 7, Category = CategoryBusiness,
               Flat = 0, FlatPct = 0, Cum = 0, CumPct = 0\<rparr>,
             \<lparr>FunctionName = ''runtime.mallocgc'', ShortName = ''mallocgc'', PackageName = ''runtime'',
               FilePath = ''malloc.go'', LineNumber = 9, Category = CategoryRuntime,
               Flat = 0, FlatPct = 0, Cum = 0, CumPct = 0\<rparr>],
           TotalValue = 1000, TotalPct = Finite 10, SampleCount = 1,
           CategoryBreakdown = Map.empty, BoundaryPoints = [1]\<rparr>,
         \<lparr>Frames =
            [\<lparr>FunctionName = ''app/handler.H'', ShortName = ''H'', PackageName = ''app/handler'',
               FilePath = ''h.go'', LineNumber = 7, Category = CategoryBusiness,
               Flat = 0, FlatPct = 0, Cum = 0, CumPct = 0\<rparr>,
             \<lparr>FunctionName = ''encoding/json.Marshal'', ShortName = ''Marshal'',
               PackageName = ''encoding/json'', FilePath = ''encode.go'', LineNumber = 5,
               Category = CategoryStdlib, Flat = 0, FlatPct = 0, Cum = 0, CumPct = 0\<rparr>,
             \<lparr>FunctionName = ''runtime.mallocgc'', ShortName = ''mallocgc'', PackageName = ''runtime'',
               FilePath = ''malloc.go'', LineNumber = 9, Category = CategoryRuntime,
               Flat = 0, FlatPct = 0, Cum = 0, CumPct = 0\<rparr>],
           TotalValue = 2000, TotalPct = Finite 20, SampleCount = 1,
           CategoryBreakdown = Map.empty, BoundaryPoints = [1]\<rparr>]"
        "\<lambda>m. m" round64]
  by simp

text \<open>
  Claim C1 as stated fails for \<^verbatim>\<open>AggregateCallChains\<close> of \<^verbatim>\<open>pkg/locator/analyzer.go\<close>:
  two chains under the same business frame, one of them through \<open>encoding/json.Marshal\<close>,
  have the same key in the claim's sense, \<open>business:app/handler.H\<close>, yet they are
  returned as two chains with their own totals.
\<close>

theorem AggregateCallChains_key_counterexample:
  "specKey [\<lparr>FunctionName = ''app/handler.H'', ShortName = ''H'', PackageName = ''app/handler'',
              FilePath = ''h.go'', LineNumber = 7, Category = CategoryBusiness,
              Flat = 0, FlatPct = 0, Cum = 0, CumPct = 0\<rparr>,
            \<lparr>FunctionName = ''runtime.mallocgc'', ShortName = ''mallocgc'', PackageName = ''runtime'',
              FilePath = ''malloc.go'', LineNumber = 9, Category = CategoryRuntime,
              Flat = 0, FlatPct = 0, Cum = 0, CumPct = 0\<rparr>]
     = specKey [\<lparr>FunctionName = ''app/handler.H'', ShortName = ''H'', PackageName = ''app/handler'',
                FilePath = ''h.go'', LineNumber = 7, Category = CategoryBusiness,
                Flat = 0, FlatPct = 0, Cum = 0, CumPct = 0\<rparr>,
              \<lparr>FunctionName = ''encoding/json.Marshal'', ShortName = ''Marshal'',
                PackageName = ''encoding/json'', FilePath = ''encode.go'', LineNumber = 5,
                Category = CategoryStdlib, Flat = 0, FlatPct = 0, Cum = 0, CumPct = 0\<rparr>,
              \<lparr>FunctionName = ''runtime.mallocgc'', ShortName = ''mallocgc'', PackageName = ''runtime'',
                FilePath = ''malloc.go'', LineNumber = 9, Category = CategoryRuntime,
                Flat = 0, FlatPct = 0, Cum = 0, CumPct = 0\<rparr>] \<and>
   map_option (map (\<lambda>c. (map FunctionName (Frames c), TotalValue c)))
     (AggregateCallChains round64 (\<lambda>m. m)
        [\<lparr>Frames =
            [\<lparr>FunctionName = ''app/handler.H'', ShortName = ''H'', PackageName = ''app/handler'',
               FilePath = ''h.go'', LineNumber = 7, Category = CategoryBusiness,
               Flat = 0, FlatPct = 0, Cum = 0, CumPct = 0\<rparr>,
             \<lparr>FunctionName = ''runtime.mallocgc'', ShortName = ''mallocgc'', PackageName = ''runtime'',
               FilePath = ''malloc.go'', LineNumber = 9, Category = CategoryRuntime,
               Flat = 0, FlatPct = 0, Cum = 0, CumPct = 0\<rparr>],
           TotalValue = 1000, TotalPct = Finite 10, SampleCount = 1,
           CategoryBreakdown = Map.empty, BoundaryPoints = [1]\<rparr>,
         \<lparr>Frames =
            [\<lparr>FunctionName = ''app/handler.H'', ShortName = ''H'', PackageName = ''app/handler'',
               FilePath = ''h.go'', LineNumber = 7, Category = CategoryBusiness,
               Flat = 0, FlatPct = 0, Cum = 0, CumPct = 0\<rparr>,
             \<lparr>FunctionName = ''encoding/json.Marshal'', ShortName = ''Marshal'',
               PackageName = ''encoding/json'', FilePath = ''encode.go'', LineNumber = 5,
               Category = CategoryStdlib, Flat = 0, FlatPct = 0, Cum = 0, CumPct = 0\<rparr>,
             \<lparr>FunctionName = ''runtime.mallocgc'', ShortName = ''mallocgc'', PackageName = ''runtime'',
               FilePath = ''malloc.go'', LineNumber = 9, Category = CategoryRuntime,
               Flat = 0, FlatPct = 0, Cum = 0, CumPct = 0\<rparr>],
           TotalValue = 2000, TotalPct = Finite 20, SampleCount = 1,
           CategoryBreakdown = Map.empty, BoundaryPoints = [1]\<rparr>])
     = Some [([''app/handler.H'', ''runtime.mallocgc''], 1000),
             ([''app/handler.H'', ''encoding/json.Marshal'', ''runtime.mallocgc''], 2000)]"
  by (simp add: specKey_def businessNames_def AggregateCallChains_def generateCallChainKey_def
      Let_def)

text \<open>
  On the same input the copy that calls \<^verbatim>\<open>generateSmartCallChainKey\<close> returns one chain:
  the frames of the first, and the sums of the totals.
\<close>

lemma AggregateCallChainsSmart_merges:
  "map_option (map (\<lambda>c. (map FunctionName (Frames c), TotalValue c, TotalPct c, SampleCount c)))
     (AggregateCallChainsSmart round64 (\<lambda>m. m)
        [\<lparr>Frames =
            [\<lparr>FunctionName = ''app/handler.H'', ShortName = ''H'', PackageName = ''app/handler'',
               FilePath = ''h.go'', LineNumber = 7, Category = CategoryBusiness,
               Flat = 0, FlatPct = 0, Cum = 0, CumPct = 0\<rparr>,
             \<lparr>FunctionName = ''runtime.mallocgc'', ShortName = ''mallocgc'', PackageName = ''runtime'',
               FilePath = ''malloc.go'', LineNumber = 9, Category = CategoryRuntime,
               Flat = 0, FlatPct = 0, Cum = 0, CumPct = 0\<rparr>],
           TotalValue = 1000, TotalPct = Finite 10, SampleCount = 1,
           CategoryBreakdown = Map.empty, BoundaryPoints = [1]\<rparr>,
         \<lparr>Frames =
            [\<lparr>FunctionName = ''app/handler.H'', ShortName = ''H'', PackageName = ''app/handler'',
               FilePath = ''h.go'', LineNumber = 7, Category = CategoryBusiness,
               Flat = 0, FlatPct = 0, Cum = 0, CumPct = 0\<rparr>,
             \<lparr>FunctionName = ''encoding/json.Marshal'', ShortName = ''Marshal'',
               PackageName = ''encoding/json'', FilePath = ''encode.go'', LineNumber = 5,
               Category = CategoryStdlib, Flat = 0, FlatPct = 0, Cum = 0, CumPct = 0\<rparr>,
             \<lparr>FunctionName = ''runtime.mallocgc'', ShortName = ''mallocgc'', PackageName = ''runtime'',
               FilePath = ''malloc.go'', LineNumber = 9, Category = CategoryRuntime,
               Flat = 0, FlatPct = 0, Cum = 0, CumPct = 0\<rparr>],
           TotalValue = 2000, TotalPct = Finite 20, SampleCount = 1,
           CategoryBreakdown = Map.empty, BoundaryPoints = [1]\<rparr>])
     = Some [([''app/handler.H'', ''runtime.mallocgc''], 3000, Finite 30, 2)]"
  using round64_of_int [of 30]
  by (simp add: AggregateCallChainsSmart_def generateSmartCallChainKey_def Let_def int64_def)


section \<open>Theorems: heap insights\<close>

lemma round64_one_fifth: "round64 (1 / 5) = Finite (3602879701896397 / 18014398509481984)"
proof -
  have "round64 (1 / 5) = Finite (of_int 7205759403792794 * pow2 (- 3 - 52))"
    by (rule round64_pos_eval) (simp_all add: pow2_def roundHalfEven_def Let_def)
  then show ?thesis by (simp add: pow2_def)
qed

lemma round64_rate_20: "round64 (3602879701896397 / 18014398509481984 * 100) = Finite 20"
proof -
  have "round64 (3602879701896397 / 18014398509481984 * 100)
          = Finite (of_int 5629499534213120 * pow2 (4 - 52))"
    by (rule round64_pos_eval) (simp_all add: pow2_def roundHalfEven_def Let_def)
  then show ?thesis by (simp add: pow2_def)
qed

lemma gcRateOf_10MB_2MB:
  assumes "AllocSpace m = 10485760" "InuseSpace m = 2097152"
  shows "gcRateOf round64 m = Finite 80"
proof -
  have a: "ofInt round64 (int64 (AllocSpace m - InuseSpace m)) = Finite 8388608"
    using assms round64_of_int [of 8388608] by (simp add: ofInt_def int64_def)
  have b: "ofInt round64 (AllocSpace m) = Finite 10485760"
    using assms round64_of_int [of 10485760] by (simp add: ofInt_def)
  have c: "fdiv round64 (Finite 8388608) (Finite 10485760)
             = Finite (3602879701896397 / 4503599627370496)"
    using round64_four_fifths by simp
  have d: "fmul round64 (Finite (3602879701896397 / 4503599627370496)) (Finite 100) = Finite 80"
    using round64_rate_80 by simp
  show ?thesis unfolding gcRateOf_def a b c d ..
qed

lemma gcRateOf_10MB_8MB:
  assumes "AllocSpace m = 10485760" "InuseSpace m = 8388608"
  shows "gcRateOf round64 m = Finite 20"
proof -
  have a: "ofInt round64 (int64 (AllocSpace m - InuseSpace m)) = Finite 2097152"
    using assms round64_of_int [of 2097152] by (simp add: ofInt_def int64_def)
  have b: "ofInt round64 (AllocSpace m) = Finite 10485760"
    using assms round64_of_int [of 10485760] by (simp add: ofInt_def)
  have c: "fdiv round64 (Finite 2097152) (Finite 10485760)
             = Finite (3602879701896397 / 18014398509481984)"
    using round64_one_fifth by simp
  have d: "fmul round64 (Finite (3602879701896397 / 18014398509481984)) (Finite 100) = Finite 20"
    using round64_rate_20 by simp
  show ?thesis unfolding gcRateOf_def a b c d ..
qed

lemma inuseInsights_small:
  assumes "InuseSpace m = 2097152 \<or> InuseSpace m = 8388608"
  shows "inuseInsights round64 m = []"
proof -
  have "round64 2097152 = Finite 2097152" using round64_of_int [of 2097152] by simp
  moreover have "round64 8388608 = Finite 8388608" using round64_of_int [of 8388608] by simp
  moreover have "round64 2048 = Finite 2048" using round64_of_int [of 2048] by simp
  moreover have "round64 8192 = Finite 8192" using round64_of_int [of 8192] by simp
  moreover have "round64 2 = Finite 2" using round64_of_int [of 2] by simp
  moreover have "round64 8 = Finite 8" using round64_of_int [of 8] by simp
  ultimately show ?thesis
    using assms by (auto simp add: inuseInsights_def ofInt_def fgt_def Let_def)
qed

lemma allocInsights_10MB:
  assumes "AllocSpace m = 10485760"
  shows "allocInsights round64 m = []"
proof -
  have "round64 10485760 = Finite 10485760" using round64_of_int [of 10485760] by simp
  moreover have "round64 10240 = Finite 10240" using round64_of_int [of 10240] by simp
  moreover have "round64 10 = Finite 10" using round64_of_int [of 10] by simp
  moreover have "round64 (5 / 512) = Finite (5 / 512)"
    using round64_exact [of 5 "- 9"] by (simp add: pow2_def)
  ultimately show ?thesis
    using assms by (simp add: allocInsights_def ofInt_def fgt_def Let_def)
qed

lemma topInsights_info:
  "topInsights m = [] \<or> topInsights m = [\<lparr>Level = ''info'', InsightTitle = titleTopConsumer\<rparr>]"
  by (simp add: topInsights_def Let_def split: list.splits)

text \<open>
  Claim C3, amended. With \<^verbatim>\<open>AllocSpace\<close> = 10 MB: for \<^verbatim>\<open>InuseSpace\<close> = 2 MB the
  rate computed in binary64 is exactly 80, which is not below 80, so no GC-reclaim-rate
  insight is emitted and the result is at most the info-level top-function insight; for
  \<^verbatim>\<open>InuseSpace\<close> = 8 MB the rate is 20 and the critical GC-reclaim-rate insight comes
  first.
\<close>

theorem AnalyzeHeapInsights_gc_rate:
  "AllocSpace m = 10485760 \<Longrightarrow>
   (InuseSpace m = 2097152 \<longrightarrow>
      gcRateOf round64 m = Finite 80 \<and>
      AnalyzeHeapInsights round64 (Some m) = topInsights m) \<and>
   (InuseSpace m = 8388608 \<longrightarrow>
      gcRateOf round64 m = Finite 20 \<and>
      AnalyzeHeapInsights round64 (Some m) =
        \<lparr>Level = ''critical'', InsightTitle = titleGCTooLow\<rparr> # topInsights m) \<and>
   (topInsights m = [] \<or>
    topInsights m = [\<lparr>Level = ''info'', InsightTitle = titleTopConsumer\<rparr>])"
proof (intro conjI impI)
  assume a: "AllocSpace m = 10485760"
  show "topInsights m = [] \<or>
        topInsights m = [\<lparr>Level = ''info'', InsightTitle = titleTopConsumer\<rparr>]"
    by (rule topInsights_info)
  {
    assume i: "InuseSpace m = 2097152"
    show "gcRateOf round64 m = Finite 80" using a i by (rule gcRateOf_10MB_2MB)
    then show "AnalyzeHeapInsights round64 (Some m) = topInsights m"
      using a i inuseInsights_small [of m] allocInsights_10MB [of m]
      by (simp add: AnalyzeHeapInsights_def gcInsights_def)
  }
  {
    assume i: "InuseSpace m = 8388608"
    show "gcRateOf round64 m = Finite 20" using a i by (rule gcRateOf_10MB_8MB)
    then show "AnalyzeHeapInsights round64 (Some m) =
        \<lparr>Level = ''critical'', InsightTitle = titleGCTooLow\<rparr> # topInsights m"
      using a i inuseInsights_small [of m] allocInsights_10MB [of m]
      by (simp add: AnalyzeHeapInsights_def gcInsights_def)
  }
qed

text \<open>
  Claim C3 as stated fails: at \<^verbatim>\<open>AllocSpace\<close> = 10 MB and \<^verbatim>\<open>InuseSpace\<close> = 2 MB
  no insight at all is emitted, so no warning-level GC-reclaim-rate insight.
\<close>

theorem AnalyzeHeapInsights_rate_80_counterexample:
  "AnalyzeHeapInsights round64
     (Some \<lparr>TotalSamples = 100, TotalValue = 10485760, Duration = 0, NumLocations = 0,
            NumFunctions = 0, CPUTime = 0, AllocObjects = 10, AllocSpace = 10485760,
            InuseObjects = 2, InuseSpace = 2097152, GoroutineCount = 0,
            TopFunctions = [], TopAllocFunctions = []\<rparr>) = []"
proof -
  let ?m = "\<lparr>TotalSamples = 100, TotalValue = 10485760, Duration = 0, NumLocations = 0,
            NumFunctions = 0, CPUTime = 0, AllocObjects = 10, AllocSpace = 10485760,
            InuseObjects = 2, InuseSpace = 2097152, GoroutineCount = 0,
            TopFunctions = [], TopAllocFunctions = []\<rparr>"
  have "gcRateOf round64 ?m = Finite 80" by (rule gcRateOf_10MB_2MB) simp_all
  then show ?thesis
    using inuseInsights_small [of ?m]
    by (simp add: AnalyzeHeapInsights_def gcInsights_def allocInsights_def topInsights_def)
qed

theorem AnalyzeHeapInsights_gc_rate_witness:
  "AnalyzeHeapInsights round64
     (Some \<lparr>TotalSamples = 100, TotalValue = 10485760, Duration = 0, NumLocations = 0,
            NumFunctions = 0, CPUTime = 0, AllocObjects = 10, AllocSpace = 10485760,
            InuseObjects = 8, InuseSpace = 8388608, GoroutineCount = 0,
            TopFunctions = [], TopAllocFunctions = []\<rparr>) =
     [\<lparr>Level = ''critical'', InsightTitle = titleGCTooLow\<rparr>]"
  using AnalyzeHeapInsights_gc_rate [of "\<lparr>TotalSamples = 100, TotalValue = 10485760, Duration = 0, NumLocations = 0,
            NumFunctions = 0, CPUTime = 0, AllocObjects = 10, AllocSpace = 10485760,
            InuseObjects = 8, InuseSpace = 8388608, GoroutineCount = 0,
            TopFunctions = [], TopAllocFunctions = []\<rparr>"]
  by (simp add: topInsights_def)


section \<open>Theorems: regression on a constant series\<close>

lemma indexSum_closed: "2 * indexSum i = int i * (int i - 1)"
  by (induction i) (simp_all add: algebra_simps)

lemma squareSum_closed: "6 * squareSum i = (int i - 1) * int i * (2 * int i - 1)"
  by (induction i) (simp_all add: algebra_simps)

lemma indexSum_nonneg: "0 \<le> indexSum i"
  by (induction i) simp_all

lemma squareSum_nonneg: "0 \<le> squareSum i"
  by (induction i) simp_all

lemma indexSum_le_square: "indexSum i \<le> int i * int i"
  by (induction i) (simp_all add: algebra_simps)

lemma squareSum_le_cube: "squareSum i \<le> int i * int i * int i"
proof (induction i)
  case 0
  then show ?case by simp
next
  case (Suc i)
  have "squareSum (Suc i) \<le> int i * int i * int i + int i * int i"
    using Suc by simp
  also have "\<dots> \<le> int (Suc i) * int (Suc i) * int (Suc i)"
  proof -
    have "0 \<le> int i * int i" by simp
    then show ?thesis by (simp add: algebra_simps)
  qed
  finally show ?case .
qed

lemma indexSum_bound: "i \<le> n \<Longrightarrow> indexSum i \<le> int n ^ 2"
proof -
  assume "i \<le> n"
  then have "int i * int i \<le> int n * int n" by (simp add: mult_mono)
  then show ?thesis using indexSum_le_square [of i] by (simp add: power2_eq_square)
qed

lemma squareSum_bound: "i \<le> n \<Longrightarrow> squareSum i \<le> int n ^ 3"
proof -
  assume le: "i \<le> n"
  then have "int i * int i \<le> int n * int n" by (simp add: mult_mono)
  then have "int i * int i * int i \<le> int n * int n * int n"
    using le by (intro mult_mono) simp_all
  then show ?thesis using squareSum_le_cube [of i] by (simp add: power3_eq_cube)
qed

lemma square_le_cube: "int n ^ 2 \<le> int n ^ 3"
  by (cases n) (simp_all add: power2_eq_square power3_eq_cube)

lemma le_cube: "i \<le> n \<Longrightarrow> int i \<le> int n ^ 3"
proof -
  assume "i \<le> n"
  then have "int i \<le> int n" by simp
  also have "\<dots> \<le> int n ^ 3" by (cases "n = 0") (simp_all add: self_le_power)
  finally show ?thesis .
qed

lemma le_square: "i \<le> n \<Longrightarrow> int i \<le> int n ^ 2"
proof -
  assume "i \<le> n"
  then have "int i \<le> int n" by simp
  also have "\<dots> \<le> int n ^ 2" by (cases "n = 0") (simp_all add: self_le_power)
  finally show ?thesis .
qed

lemma sumLoop_constant:
  assumes ez: "\<And>z::int. \<bar>z\<bar> \<le> int n ^ 3 \<Longrightarrow> rnd (of_int z) = Finite (of_int z)"
    and ec: "\<And>a::int. \<bar>a\<bar> \<le> int n ^ 2 \<Longrightarrow> rnd (of_int a * c) = Finite (of_int a * c)"
  shows "i + k \<le> n \<Longrightarrow>
     sumLoop rnd (int i) (replicate k (Finite c))
       (Finite (of_int (indexSum i)), Finite (of_int (int i) * c),
        Finite (of_int (indexSum i) * c), Finite (of_int (squareSum i))) =
       (Finite (of_int (indexSum (i + k))), Finite (of_int (int (i + k)) * c),
        Finite (of_int (indexSum (i + k)) * c), Finite (of_int (squareSum (i + k))))"
proof (induction k arbitrary: i)
  case 0
  then show ?case by simp
next
  case (Suc k)
  then have le: "Suc i \<le> n" and le': "i \<le> n" by simp_all
  have x: "ofInt rnd (int i) = Finite (of_int (int i))"
    unfolding ofInt_def using le_cube [OF le'] by (intro ez) simp
  have sx: "fadd rnd (Finite (of_int (indexSum i))) (Finite (of_int (int i)))
              = Finite (of_int (indexSum (Suc i)))"
  proof -
    have "\<bar>indexSum (Suc i)\<bar> \<le> int n ^ 3"
      using indexSum_bound [OF le] indexSum_nonneg [of "Suc i"] square_le_cube [of n] by linarith
    then have "rnd (of_int (indexSum (Suc i))) = Finite (of_int (indexSum (Suc i)))" by (rule ez)
    then show ?thesis by simp
  qed
  have sy: "fadd rnd (Finite (of_int (int i) * c)) (Finite c) = Finite (of_int (int (Suc i)) * c)"
  proof -
    have "\<bar>int (Suc i)\<bar> \<le> int n ^ 2" using le_square [OF le] by simp
    then have "rnd (of_int (int (Suc i)) * c) = Finite (of_int (int (Suc i)) * c)" by (rule ec)
    then show ?thesis by (simp add: algebra_simps)
  qed
  have xy: "fmul rnd (Finite (of_int (int i))) (Finite c) = Finite (of_int (int i) * c)"
  proof -
    have "\<bar>int i\<bar> \<le> int n ^ 2" using le_square [OF le'] by simp
    then have "rnd (of_int (int i) * c) = Finite (of_int (int i) * c)" by (rule ec)
    then show ?thesis by simp
  qed
  have sxy: "fadd rnd (Finite (of_int (indexSum i) * c)) (Finite (of_int (int i) * c))
               = Finite (of_int (indexSum (Suc i)) * c)"
  proof -
    have "\<bar>indexSum (Suc i)\<bar> \<le> int n ^ 2"
      using indexSum_bound [OF le] indexSum_nonneg [of "Suc i"] by linarith
    then have "rnd (of_int (indexSum (Suc i)) * c) = Finite (of_int (indexSum (Suc i)) * c)"
      by (rule ec)
    then show ?thesis by (simp add: algebra_simps)
  qed
  have xx: "fmul rnd (Finite (of_int (int i))) (Finite (of_int (int i)))
              = Finite (of_int (int i * int i))"
  proof -
    have "int i * int i \<le> int n * int n" using le' by (simp add: mult_mono)
    then have "\<bar>int i * int i\<bar> \<le> int n ^ 3"
      using square_le_cube [of n] by (simp add: power2_eq_square)
    then have "rnd (of_int (int i * int i)) = Finite (of_int (int i * int i))" by (rule ez)
    then show ?thesis by simp
  qed
  have sx2: "fadd rnd (Finite (of_int (squareSum i))) (Finite (of_int (int i * int i)))
               = Finite (of_int (squareSum (Suc i)))"
  proof -
    have "\<bar>squareSum (Suc i)\<bar> \<le> int n ^ 3"
      using squareSum_bound [OF le] squareSum_nonneg [of "Suc i"] by linarith
    then have "rnd (of_int (squareSum (Suc i))) = Finite (of_int (squareSum (Suc i)))"
      by (rule ez)
    then show ?thesis by simp
  qed
  have nxt: "int i + 1 = int (Suc i)" by simp
  have "sumLoop rnd (int i) (replicate (Suc k) (Finite c))
       (Finite (of_int (indexSum i)), Finite (of_int (int i) * c),
        Finite (of_int (indexSum i) * c), Finite (of_int (squareSum i))) =
     sumLoop rnd (int (Suc i)) (replicate k (Finite c))
       (Finite (of_int (indexSum (Suc i))), Finite (of_int (int (Suc i)) * c),
        Finite (of_int (indexSum (Suc i)) * c), Finite (of_int (squareSum (Suc i))))"
    by (simp only: replicate_Suc sumLoop.simps Let_def x sx sy xy sxy xx sx2 nxt)
  also have "\<dots> = (Finite (of_int (indexSum (Suc i + k))), Finite (of_int (int (Suc i + k)) * c),
        Finite (of_int (indexSum (Suc i + k)) * c), Finite (of_int (squareSum (Suc i + k))))"
    using Suc.prems by (intro Suc.IH) simp
  finally show ?case by simp
qed

lemma resLoop_constant:
  assumes r0: "rnd 0 = Finite 0" and rc: "rnd c = Finite c"
    and ez: "\<And>z::int. \<bar>z\<bar> \<le> int n ^ 3 \<Longrightarrow> rnd (of_int z) = Finite (of_int z)"
  shows "i + k \<le> n \<Longrightarrow>
     resLoop rnd (Finite 0) (Finite c) (Finite c) (int i) (replicate k (Finite c))
       (Finite 0, Finite 0) = Some (Finite 0, Finite 0)"
proof (induction k arbitrary: i)
  case 0
  then show ?case by simp
next
  case (Suc k)
  then have le': "i \<le> n" by simp
  have x: "ofInt rnd (int i) = Finite (of_int (int i))"
    unfolding ofInt_def using le_cube [OF le'] by (intro ez) simp
  have nxt: "int i + 1 = int (Suc i)" by simp
  have "resLoop rnd (Finite 0) (Finite c) (Finite c) (int i) (replicate (Suc k) (Finite c))
          (Finite 0, Finite 0) =
        resLoop rnd (Finite 0) (Finite c) (Finite c) (int i + 1) (replicate k (Finite c))
          (Finite 0, Finite 0)"
    by (simp add: Let_def x r0 rc fsub_def IsNaN_def IsInf_def)
  also have "\<dots> =
        resLoop rnd (Finite 0) (Finite c) (Finite c) (int (Suc i)) (replicate k (Finite c))
          (Finite 0, Finite 0)"
    by (simp only: nxt)
  also have "\<dots> = Some (Finite 0, Finite 0)"
    using Suc.prems by (intro Suc.IH) simp
  finally show ?case .
qed

text \<open>
  With a rounding function that is exact on the quarters \<open>a / 4\<close> up to \<open>4 n^3\<close> and
  on the multiples \<open>a * c\<close> up to \<open>n^2\<close>, every operation of \<^verbatim>\<open>LinearRegression\<close> on
  the constant series of \<open>n\<close> values \<open>c\<close> is exact, the slope is 0 and the total sum of
  squares is 0, so R-squared is set to 1.
\<close>

lemma LinearRegression_constant_exact:
  assumes n2: "2 \<le> n"
    and h4: "\<forall>a::int. \<bar>a\<bar> \<le> 4 * int n ^ 3 \<longrightarrow> rnd (of_int a / 4) = Finite (of_int a / 4)"
    and hc: "\<forall>a::int. \<bar>a\<bar> \<le> int n ^ 2 \<longrightarrow> rnd (of_int a * c) = Finite (of_int a * c)"
  shows "LinearRegression rnd (replicate n (Finite c)) = (Finite 0, Finite 1)"
proof -
  let ?N = "real_of_int (int n)"
  let ?T = "real_of_int (indexSum n)"
  let ?S = "real_of_int (squareSum n)"
  let ?M = "(?N - 1) / 2"
  have q4: "\<And>a::int. \<bar>a\<bar> \<le> 4 * int n ^ 3 \<Longrightarrow> rnd (of_int a / 4) = Finite (of_int a / 4)"
    using h4 by blast
  have ec: "\<And>a::int. \<bar>a\<bar> \<le> int n ^ 2 \<Longrightarrow> rnd (of_int a * c) = Finite (of_int a * c)"
    using hc by blast
  have ez: "\<And>z::int. \<bar>z\<bar> \<le> int n ^ 3 \<Longrightarrow> rnd (of_int z) = Finite (of_int z)"
  proof -
    fix z :: int
    assume "\<bar>z\<bar> \<le> int n ^ 3"
    then have "\<bar>4 * z\<bar> \<le> 4 * int n ^ 3" by simp
    then have "rnd (of_int (4 * z) / 4) = Finite (of_int (4 * z) / 4)" by (rule q4)
    then show "rnd (of_int z) = Finite (of_int z)" by simp
  qed
  have n1: "1 \<le> int n ^ 2" using n2 le_square [of 1 n] by simp
  have r0: "rnd 0 = Finite 0" using ez [of 0] by simp
  have rc: "rnd c = Finite c" using ec [of 1] n1 by simp
  have Tc: "2 * ?T = ?N * (?N - 1)"
  proof -
    have "real_of_int (2 * indexSum n) = real_of_int (int n * (int n - 1))"
      by (simp only: indexSum_closed)
    then show ?thesis by simp
  qed
  have Sc: "6 * ?S = (?N - 1) * ?N * (2 * ?N - 1)"
  proof -
    have "real_of_int (6 * squareSum n) = real_of_int ((int n - 1) * int n * (2 * int n - 1))"
      by (simp only: squareSum_closed)
    then show ?thesis by simp
  qed
  have N2: "2 \<le> ?N" using n2 by simp
  have nf: "ofInt rnd (int (length (replicate n (Finite c)))) = Finite ?N"
    unfolding ofInt_def length_replicate using le_cube [of n n] by (intro ez) simp
  have lt2: "\<not> flt (Finite ?N) (Finite 2)" using N2 by simp
  have inv: "\<not> invalidLoop (replicate n (Finite c))"
    by (induction n) (simp_all add: IsNaN_def IsInf_def)
  have sums: "sumLoop rnd 0 (replicate n (Finite c)) (Finite 0, Finite 0, Finite 0, Finite 0) =
      (Finite ?T, Finite (?N * c), Finite (?T * c), Finite ?S)"
    using sumLoop_constant [of n rnd c 0 n, OF ez ec] by simp
  have Nne: "?N \<noteq> 0" using N2 by simp
  have meanX: "fdiv rnd (Finite ?T) (Finite ?N) = Finite ?M"
  proof -
    have c3: "int n \<le> int n ^ 3" by (rule le_cube) simp
    have "0 \<le> 2 * (int n - 1)" using n2 by simp
    moreover have "2 * (int n - 1) \<le> 4 * int n ^ 3"
    proof -
      have g: "\<And>x y::int. 0 \<le> y \<Longrightarrow> x \<le> y \<Longrightarrow> 2 * (x - 1) \<le> 4 * y" by presburger
      show ?thesis by (rule g [OF _ c3]) simp
    qed
    ultimately have b: "\<bar>2 * (int n - 1)\<bar> \<le> 4 * int n ^ 3" by simp
    have c: "real_of_int (2 * (int n - 1)) / 4 = ?M" by simp
    have r: "rnd ?M = Finite ?M" using q4 [OF b] unfolding c .
    have v: "?T / ?N = ?M" using Tc N2 by (simp add: field_simps)
    show ?thesis by (simp only: fdiv.simps v r Nne simp_thms if_True)
  qed
  have meanY: "fdiv rnd (Finite (?N * c)) (Finite ?N) = Finite c"
  proof -
    have v: "?N * c / ?N = c" using Nne by simp
    show ?thesis by (simp only: fdiv.simps v rc Nne simp_thms if_True)
  qed
  have ib3: "\<bar>indexSum n\<bar> \<le> int n ^ 3"
    using indexSum_bound [of n n] indexSum_nonneg [of n] square_le_cube [of n] by simp
  have ib: "\<bar>indexSum n\<bar> \<le> int n ^ 2"
    using indexSum_bound [of n n] indexSum_nonneg [of n] by simp
  have nmx: "fmul rnd (Finite ?N) (Finite ?M) = Finite ?T"
  proof -
    have r: "rnd ?T = Finite ?T" using ib3 by (rule ez)
    have v: "?N * ?M = ?T" using Tc by (simp add: field_simps)
    show ?thesis by (simp only: fmul.simps v r)
  qed
  have nmxy: "fmul rnd (Finite ?T) (Finite c) = Finite (?T * c)"
    using ec [OF ib] by (simp only: fmul.simps)
  have num: "fsub rnd (Finite (?T * c)) (Finite (?T * c)) = Finite 0"
  proof -
    have v: "?T * c + - (?T * c) = 0" by simp
    show ?thesis by (simp only: fsub_def fneg.simps fadd.simps v r0)
  qed
  have a1: "0 \<le> indexSum n * (int n - 1)" using indexSum_nonneg [of n] n2 by simp
  have a2: "indexSum n * (int n - 1) \<le> int n ^ 3"
  proof -
    have "indexSum n * (int n - 1) \<le> int n ^ 2 * int n"
      using indexSum_bound [of n n] indexSum_nonneg [of n] n2 by (intro mult_mono) simp_all
    then show ?thesis by (simp add: power2_eq_square power3_eq_cube)
  qed
  have nmxx: "fmul rnd (Finite ?T) (Finite ?M) = Finite (?T * ?M)"
  proof -
    have b: "\<bar>2 * (indexSum n * (int n - 1))\<bar> \<le> 4 * int n ^ 3" using a1 a2 by simp
    have c: "real_of_int (2 * (indexSum n * (int n - 1))) / 4 = ?T * ?M" by simp
    have r: "rnd (?T * ?M) = Finite (?T * ?M)" using q4 [OF b] unfolding c .
    show ?thesis by (simp only: fmul.simps r)
  qed
  have den: "fsub rnd (Finite ?S) (Finite (?T * ?M)) = Finite (?S - ?T * ?M)"
  proof -
    have s0: "0 \<le> squareSum n" by (rule squareSum_nonneg)
    have s3: "squareSum n \<le> int n ^ 3" by (rule squareSum_bound) simp
    have g: "\<And>s t y::int. 0 \<le> s \<Longrightarrow> s \<le> y \<Longrightarrow> 0 \<le> t \<Longrightarrow> t \<le> y \<Longrightarrow>
               \<bar>4 * s - 2 * t\<bar> \<le> 4 * y" by presburger
    have b: "\<bar>4 * squareSum n - 2 * (indexSum n * (int n - 1))\<bar> \<le> 4 * int n ^ 3"
      by (rule g [OF s0 s3 a1 a2])
    have c: "real_of_int (4 * squareSum n - 2 * (indexSum n * (int n - 1))) / 4 = ?S - ?T * ?M"
      by (simp add: field_simps)
    have r: "rnd (?S - ?T * ?M) = Finite (?S - ?T * ?M)" using q4 [OF b] unfolding c .
    have v: "?S + - (?T * ?M) = ?S - ?T * ?M" by simp
    show ?thesis by (simp only: fsub_def fneg.simps fadd.simps v r)
  qed
  have dne: "?S - ?T * ?M \<noteq> 0"
  proof -
    have "12 * (?S - ?T * ?M) = 2 * (6 * ?S) - 3 * ((2 * ?T) * (?N - 1))"
      by (simp add: field_simps)
    also have "\<dots> = ?N * (?N - 1) * (?N + 1)"
      unfolding Sc Tc by (simp add: algebra_simps)
    finally have "12 * (?S - ?T * ?M) = ?N * (?N - 1) * (?N + 1)" .
    moreover have "0 < ?N * (?N - 1) * (?N + 1)" using N2 by simp
    ultimately show ?thesis by simp
  qed
  have dz: "\<not> feq (Finite (?S - ?T * ?M)) (Finite 0)" using dne by (simp add: feq_def)
  have slope: "fdiv rnd (Finite 0) (Finite (?S - ?T * ?M)) = Finite 0"
  proof -
    have v: "0 / (?S - ?T * ?M) = 0" by simp
    show ?thesis by (simp only: fdiv.simps v r0 dne simp_thms if_True)
  qed
  have icpt: "fsub rnd (Finite c) (fmul rnd (Finite 0) (Finite ?M)) = Finite c"
  proof -
    have v1: "0 * ?M = 0" by simp
    have v2: "c + - 0 = c" by simp
    show ?thesis by (simp only: fsub_def fmul.simps fneg.simps fadd.simps v1 v2 r0 rc)
  qed
  have res: "resLoop rnd (Finite 0) (Finite c) (Finite c) 0 (replicate n (Finite c))
               (Finite 0, Finite 0) = Some (Finite 0, Finite 0)"
    using resLoop_constant [of rnd c n 0 n, OF r0 rc ez] by simp
  have fin: "\<And>x. \<not> (IsNaN (Finite x) \<or> IsInf (Finite x))"
    by (simp add: IsNaN_def IsInf_def)
  have clamp: "fmax (Finite 0) (fmin (Finite 1) (Finite 1)) = Finite 1"
    by (simp add: fmax_def fmin_def fgt_def IsNaN_def)
  show ?thesis
    unfolding LinearRegression_def Let_def nf sums prod.case meanX meanY nmx nmxy num nmxx den
      slope icpt res option.case
    using lt2 inv dz fin clamp by (simp add: feq_def IsNaN_def IsInf_def)
qed

lemma round64_quarters:
  assumes "\<bar>a\<bar> < 2 ^ 53"
  shows "round64 (of_int a / 4) = Finite (of_int a / 4)"
proof -
  have "real_of_int \<bar>a\<bar> < real_of_int (2 ^ 53)" using assms by (simp only: of_int_less_iff)
  then have "\<bar>real_of_int a\<bar> < 2 ^ 53" by simp
  also have "(2::real) ^ 53 \<le> 2 ^ 1024" by (rule power_increasing) simp_all
  finally have "\<bar>real_of_int a * pow2 (- 2)\<bar> < pow2 1024"
    by (simp add: pow2_def abs_mult)
  then have "round64 (of_int a * pow2 (- 2)) = Finite (of_int a * pow2 (- 2))"
    using assms by (intro round64_exact) simp_all
  then show ?thesis by (simp add: pow2_def)
qed

text \<open>
  Where no operation rounds, the constant series gives slope 0 and R-squared 1: so it is
  for a series of \<open>n \<ge> 2\<close> values that are all the same integer \<open>k\<close>, with
  \<open>4 n^3 < 2^53\<close> and \<open>|k| n^2 < 2^53\<close>, in binary64 arithmetic. The series of five
  values 5 is one of them.
\<close>

lemma LinearRegression_constant_integers:
  assumes "2 \<le> n" and "4 * int n ^ 3 < 2 ^ 53" and "\<bar>k\<bar> * int n ^ 2 < 2 ^ 53"
  shows "LinearRegression round64 (replicate n (Finite (of_int k))) = (Finite 0, Finite 1)"
proof (rule LinearRegression_constant_exact [OF assms(1)])
  show "\<forall>a::int. \<bar>a\<bar> \<le> 4 * int n ^ 3 \<longrightarrow> round64 (of_int a / 4) = Finite (of_int a / 4)"
  proof (intro allI impI)
    fix a :: int
    assume "\<bar>a\<bar> \<le> 4 * int n ^ 3"
    then have "\<bar>a\<bar> < 2 ^ 53" using assms(2) by simp
    then show "round64 (of_int a / 4) = Finite (of_int a / 4)" by (rule round64_quarters)
  qed
  show "\<forall>a::int. \<bar>a\<bar> \<le> int n ^ 2 \<longrightarrow>
          round64 (of_int a * of_int k) = Finite (of_int a * of_int k)"
  proof (intro allI impI)
    fix a :: int
    assume "\<bar>a\<bar> \<le> int n ^ 2"
    then have "\<bar>a\<bar> * \<bar>k\<bar> \<le> int n ^ 2 * \<bar>k\<bar>" by (intro mult_right_mono) simp_all
    then have "\<bar>a * k\<bar> < 2 ^ 53" using assms(3) by (simp add: abs_mult mult.commute)
    then have "round64 (of_int (a * k)) = Finite (of_int (a * k))" by (rule round64_of_int)
    then show "round64 (of_int a * of_int k) = Finite (of_int a * of_int k)" by simp
  qed
qed

lemma LinearRegression_constant_fives:
  "LinearRegression round64 [Finite 5, Finite 5, Finite 5, Finite 5, Finite 5]
     = (Finite 0, Finite 1)"
  using LinearRegression_constant_integers [of 5 5]
  by (simp add: numeral_eq_Suc)


lemma round64_pow2_1023: "round64 (2 ^ 1023) = Finite (2 ^ 1023)"
proof -
  have "\<bar>real_of_int 1 * pow2 1023\<bar> < pow2 1024"
    by (simp add: pow2_less_iff)
  then have "round64 (of_int 1 * pow2 1023) = Finite (of_int 1 * pow2 1023)"
    by (intro round64_exact) simp_all
  then show ?thesis by (simp add: pow2_nat)
qed

lemma round64_pow2_1024: "round64 (pow2 1024) = PosInf"
proof -
  have ex: "exponentOf (pow2 1024) = 1024"
    by (rule exponentOf_eq) (simp_all add: pow2_less_iff)
  have q: "pow2 1024 / pow2 972 = of_int (2 ^ 52)"
  proof -
    have "pow2 1024 = pow2 (52 + 972)" by simp
    also have "\<dots> = pow2 52 * pow2 972" by (rule pow2_add)
    finally show ?thesis by (simp add: pow2_nat)
  qed
  have r: "of_int (roundHalfEven (pow2 1024 / pow2 972)) * pow2 972 = pow2 1024"
  proof -
    have "pow2 1024 = pow2 (52 + 972)" by simp
    also have "\<dots> = pow2 52 * pow2 972" by (rule pow2_add)
    finally show ?thesis unfolding q roundHalfEven_of_int by (simp add: pow2_nat)
  qed
  have "round64 (pow2 1024) = (if pow2 1024 \<le> pow2 1024 then signedInf (pow2 1024 < 0)
      else Finite (if pow2 1024 < 0 then - pow2 1024 else pow2 1024))"
    unfolding round64_def Let_def pow2_abs ex using r by simp
  moreover have "\<not> pow2 1024 < 0" using pow2_nonneg [of 1024] by (simp only: not_less)
  ultimately show ?thesis by (simp add: signedInf_def)
qed

text \<open>
  Overflow: the two finite, identical values \<open>2^1023\<close> sum to an infinity, the guard on
  the mean returns, and the result is slope 0 and R-squared 0.
\<close>

lemma LinearRegression_constant_overflow:
  "LinearRegression round64 [Finite (2 ^ 1023), Finite (2 ^ 1023)] = (Finite 0, Finite 0)"
proof -
  define b :: real where "b = 2 ^ 1023"
  have r0: "round64 0 = Finite 0" by (simp add: round64_def)
  have r1: "round64 1 = Finite 1" using round64_of_int [of 1] by simp
  have r2: "round64 2 = Finite 2" using round64_of_int [of 2] by simp
  have rh: "round64 (1 / 2) = Finite (1 / 2)" using round64_quarters [of 2] by simp
  have rb: "round64 b = Finite b" unfolding b_def by (rule round64_pow2_1023)
  have bb: "b + b = pow2 1024" by (simp add: b_def pow2_nat)
  have ro: "round64 (b + b) = PosInf" unfolding bb by (rule round64_pow2_1024)
  have nf: "ofInt round64 (int (length [Finite b, Finite b])) = Finite 2"
    by (simp add: ofInt_def r2)
  have sums: "sumLoop round64 0 [Finite b, Finite b] (Finite 0, Finite 0, Finite 0, Finite 0)
                = (Finite 1, PosInf, Finite b, Finite 1)"
    by (simp only: sumLoop.simps Let_def ofInt_def fadd.simps fmul.simps of_int_0 of_int_1
        add_0 add_0_right mult_zero_left mult_1 mult_1_right r0 r1 rb ro)
  have "LinearRegression round64 [Finite b, Finite b] = (Finite 0, Finite 0)"
    unfolding LinearRegression_def Let_def nf sums prod.case
    by (simp add: IsNaN_def IsInf_def rh signedInf_def)
  then show ?thesis by (simp only: b_def)
qed

lemma round64_three_tenths:
  "round64 (3 * (3602879701896397 / 36028797018963968)) = Finite (1351079888211149 / 4503599627370496)"
proof -
  have "round64 (3 * (3602879701896397 / 36028797018963968))
          = Finite (of_int 5404319552844596 * pow2 (- 2 - 52))"
    by (rule round64_pos_eval) (simp_all add: pow2_def roundHalfEven_def Let_def)
  then show ?thesis by (simp add: pow2_def)
qed

lemma round64_mean_tenth:
  "round64 (1351079888211149 / 4503599627370496 / 3) = Finite (7205759403792795 / 72057594037927936)"
proof -
  have "round64 (1351079888211149 / 4503599627370496 / 3)
          = Finite (of_int 7205759403792795 * pow2 (- 4 - 52))"
    by (rule round64_pos_eval) (simp_all add: pow2_def roundHalfEven_def Let_def)
  then show ?thesis by (simp add: pow2_def)
qed

lemma round64_three_means:
  "round64 (3 * (7205759403792795 / 72057594037927936)) = Finite (1351079888211149 / 4503599627370496)"
proof -
  have "round64 (3 * (7205759403792795 / 72057594037927936))
          = Finite (of_int 5404319552844596 * pow2 (- 2 - 52))"
    by (rule round64_pos_eval) (simp_all add: pow2_def roundHalfEven_def Let_def)
  then show ?thesis by (simp add: pow2_def)
qed

text \<open>
  Claim C6 fails in the code at a series of three finite, identical values: the binary64
  number nearest to 0.1, three times. The sum of the three rounds up, the computed mean
  differs from the values by \<open>2^(-56)\<close>, the total sum of squares is \<open>3 * 2^(-112)\<close> and
  not 0, so the branch for identical values is not taken: \<^verbatim>\<open>LinearRegression\<close> returns
  slope 0 and R-squared 0 where the claim asks for R-squared 1.
\<close>

theorem LinearRegression_constant_tenth:
  "LinearRegression round64
     [Finite (3602879701896397 / 36028797018963968),
      Finite (3602879701896397 / 36028797018963968),
      Finite (3602879701896397 / 36028797018963968)] = (Finite 0, Finite 0)"
proof -
  define d :: real where "d = 3602879701896397 / 36028797018963968"
  define s :: real where "s = 1351079888211149 / 4503599627370496"
  define m :: real where "m = 7205759403792795 / 72057594037927936"
  define u :: real where "u = 1 / 5192296858534827628530496329220096"
  have r0: "round64 0 = Finite 0" by (simp add: round64_def)
  have ri: "round64 1 = Finite 1" "round64 2 = Finite 2" "round64 3 = Finite 3"
    "round64 4 = Finite 4" "round64 5 = Finite 5"
    using round64_of_int [of 1] round64_of_int [of 2] round64_of_int [of 3]
      round64_of_int [of 4] round64_of_int [of 5] by simp_all
  have rd: "round64 d = Finite d"
    using round64_exact [of 3602879701896397 "- 55"] by (simp add: d_def pow2_def)
  have r2d: "round64 (2 * d) = Finite (2 * d)"
    using round64_exact [of 3602879701896397 "- 54"] by (simp add: d_def pow2_def)
  have r3d: "round64 (3 * d) = Finite s"
    using round64_three_tenths by (simp add: d_def s_def)
  have rm: "round64 (s / 3) = Finite m"
    using round64_mean_tenth by (simp add: s_def m_def)
  have rmm: "round64 m = Finite m"
    using round64_exact [of 7205759403792795 "- 56"] by (simp add: m_def pow2_def)
  have r3m: "round64 (3 * m) = Finite s"
    using round64_three_means by (simp add: s_def m_def)
  have dm: "d - m = - (1 / 72057594037927936)" by (simp add: d_def m_def)
  have rdm: "round64 (d - m) = Finite (d - m)"
    using round64_exact [of "- 1" "- 56"] by (simp add: dm pow2_def)
  have sq: "(d - m) * (d - m) = u" by (simp add: dm u_def)
  have ru: "round64 u = Finite u" "round64 (2 * u) = Finite (2 * u)"
    "round64 (3 * u) = Finite (3 * u)"
    using round64_exact [of 1 "- 112"] round64_exact [of 1 "- 111"] round64_exact [of 3 "- 112"]
    by (simp_all add: u_def pow2_def)
  have upos: "3 * u \<noteq> 0" by (simp add: u_def)
  have nf: "ofInt round64 (int (length [Finite d, Finite d, Finite d])) = Finite 3"
    by (simp add: ofInt_def ri)
  have sums: "sumLoop round64 0 [Finite d, Finite d, Finite d]
                (Finite 0, Finite 0, Finite 0, Finite 0) = (Finite 3, Finite s, Finite s, Finite 5)"
  proof -
    have "sumLoop round64 0 [Finite d, Finite d, Finite d]
            (Finite 0, Finite 0, Finite 0, Finite 0)
          = sumLoop round64 1 [Finite d, Finite d] (Finite 0, Finite d, Finite 0, Finite 0)"
      by (simp add: Let_def ofInt_def r0 rd)
    also have "\<dots> = sumLoop round64 2 [Finite d] (Finite 1, Finite (2 * d), Finite d, Finite 1)"
      by (simp add: Let_def ofInt_def r0 ri rd r2d)
    also have "\<dots> = sumLoop round64 3 [] (Finite 3, Finite s, Finite s, Finite 5)"
      by (simp add: Let_def ofInt_def r0 ri rd r2d r3d)
    finally show ?thesis by simp
  qed
  have res: "resLoop round64 (Finite 0) (Finite m) (Finite m) 0 [Finite d, Finite d, Finite d]
               (Finite 0, Finite 0) = Some (Finite (3 * u), Finite (3 * u))"
  proof -
    have "resLoop round64 (Finite 0) (Finite m) (Finite m) 0 [Finite d, Finite d, Finite d]
               (Finite 0, Finite 0)
          = resLoop round64 (Finite 0) (Finite m) (Finite m) 1 [Finite d, Finite d]
               (Finite u, Finite u)"
      by (simp add: Let_def ofInt_def fsub_def IsNaN_def IsInf_def r0 ri rmm rdm sq ru)
    also have "\<dots> = resLoop round64 (Finite 0) (Finite m) (Finite m) 2 [Finite d]
               (Finite (2 * u), Finite (2 * u))"
      by (simp add: Let_def ofInt_def fsub_def IsNaN_def IsInf_def r0 ri rmm rdm sq ru)
    also have "\<dots> = resLoop round64 (Finite 0) (Finite m) (Finite m) 3 []
               (Finite (3 * u), Finite (3 * u))"
      by (simp add: Let_def ofInt_def fsub_def IsNaN_def IsInf_def r0 ri rmm rdm sq ru)
    finally show ?thesis by simp
  qed
  have meanX: "fdiv round64 (Finite 3) (Finite 3) = Finite 1" by (simp add: ri)
  have meanY: "fdiv round64 (Finite s) (Finite 3) = Finite m" by (simp add: rm)
  have nmx: "fmul round64 (Finite 3) (Finite 1) = Finite 3" by (simp add: ri)
  have nmxy: "fmul round64 (Finite 3) (Finite m) = Finite s" by (simp add: r3m)
  have num: "fsub round64 (Finite s) (Finite s) = Finite 0" by (simp add: fsub_def r0)
  have den: "fsub round64 (Finite 5) (Finite 3) = Finite 2" by (simp add: fsub_def ri)
  have slope: "fdiv round64 (Finite 0) (Finite 2) = Finite 0" by (simp add: r0)
  have icpt: "fsub round64 (Finite m) (fmul round64 (Finite 0) (Finite 1)) = Finite m"
    by (simp add: fsub_def r0 rmm)
  have quot: "fdiv round64 (Finite (3 * u)) (Finite (3 * u)) = Finite 1"
    using upos by (simp add: ri)
  have last: "fsub round64 (Finite 1) (Finite 1) = Finite 0" by (simp add: fsub_def r0)
  have "LinearRegression round64 [Finite d, Finite d, Finite d] = (Finite 0, Finite 0)"
    unfolding LinearRegression_def Let_def nf sums prod.case meanX meanY nmx nmxy num den
      slope icpt res option.case quot last
    using upos by (simp add: IsNaN_def IsInf_def feq_def fmax_def fmin_def fgt_def)
  then show ?thesis by (simp only: d_def)
qed


end
